theory Spec2Isabelle
  imports Main "HOL-Library.Multiset"
begin

section \<open>JavaScript values used by the scripts\<close>

text \<open>
  The three scripts under \<^verbatim>\<open>backend/scripts\<close> and the seed script are TypeScript programs
  run by Node. The embedding below keeps their control flow (top-level gate,
  \<^verbatim>\<open>try / catch / finally\<close>, \<^verbatim>\<open>for ... of\<close> loops) and makes every effect an event of a
  trace. Strings are sequences of the code units U+0000 to U+00FF.
\<close>

subsection \<open>\<^verbatim>\<open>Number(process.env.X)\<close>\<close>

text \<open>
  \<^verbatim>\<open>Number(undefined)\<close> is NaN. \<^verbatim>\<open>Number(s)\<close> for a string follows StringToNumber of
  ECMA-262: white space is trimmed on both sides, the empty string is 0, and the rest must
  be a StrNumericLiteral: an optionally signed \<^verbatim>\<open>Infinity\<close> or decimal literal
  (digits, optional fraction, optional exponent), or an unsigned \<^verbatim>\<open>0x\<close>, \<^verbatim>\<open>0o\<close>, \<^verbatim>\<open>0b\<close>
  integer literal. Anything else is NaN.

  The result is kept as the mathematical value of the literal, sign, mantissa and decimal
  exponent, so that no rounding is lost; the comparison with 1 applies the rounding to a
  double.
\<close>

datatype js_number = NaN | Infinity bool | Dec bool nat int
  \<comment> \<open>\<open>Infinity neg\<close> is (-)Infinity; \<open>Dec neg m e\<close> is the double nearest to (-) m * 10^e\<close>

definition is_ws :: "char \<Rightarrow> bool" where
  \<comment> \<open>StrWhiteSpaceChar below U+0100: TAB, LF, VT, FF, CR, SP, NBSP\<close>
  "is_ws c = (of_char c \<in> {9, 10, 11, 12, 13, 32, 160 :: nat})"

definition trim :: "string \<Rightarrow> string" where
  "trim s = rev (dropWhile is_ws (rev (dropWhile is_ws s)))"

definition digit_of :: "char \<Rightarrow> nat option" where
  \<comment> \<open>value of a hexadecimal digit, either case\<close>
  "digit_of c =
     (let n = of_char c :: nat in
      if 48 \<le> n \<and> n \<le> 57 then Some (n - 48)
      else if 97 \<le> n \<and> n \<le> 102 then Some (n - 87)
      else if 65 \<le> n \<and> n \<le> 70 then Some (n - 55)
      else None)"

definition is_digit :: "nat \<Rightarrow> char \<Rightarrow> bool" where
  \<comment> \<open>a digit of the given radix\<close>
  "is_digit radix c = (case digit_of c of None \<Rightarrow> False | Some d \<Rightarrow> d < radix)"

definition digits_val :: "nat \<Rightarrow> string \<Rightarrow> nat" where
  "digits_val radix ds = foldl (\<lambda>a c. radix * a + (case digit_of c of None \<Rightarrow> 0 | Some d \<Rightarrow> d)) 0 ds"

definition all_digits :: "nat \<Rightarrow> string \<Rightarrow> bool" where
  \<comment> \<open>one digit or more, and nothing else\<close>
  "all_digits radix ds = (ds \<noteq> [] \<and> list_all (is_digit radix) ds)"

definition ExponentPart :: "string \<Rightarrow> int option" where
  \<comment> \<open>what follows the mantissa: nothing, or \<^verbatim>\<open>e\<close> / \<^verbatim>\<open>E\<close> and a SignedInteger\<close>
  "ExponentPart s =
     (case s of
        [] \<Rightarrow> Some 0
      | c # r \<Rightarrow>
          if c = CHR ''e'' \<or> c = CHR ''E'' then
            (case r of
               [] \<Rightarrow> None
             | d # ds \<Rightarrow>
                 if d = CHR ''+'' then
                   (if all_digits 10 ds then Some (int (digits_val 10 ds)) else None)
                 else if d = CHR ''-'' then
                   (if all_digits 10 ds then Some (- int (digits_val 10 ds)) else None)
                 else if all_digits 10 r then Some (int (digits_val 10 r)) else None)
          else None)"

definition StrUnsignedDecimalLiteral :: "bool \<Rightarrow> string \<Rightarrow> js_number" where
  "StrUnsignedDecimalLiteral neg s =
     (if s = ''Infinity'' then Infinity neg
      else
        let ip = takeWhile (is_digit 10) s;
            r1 = dropWhile (is_digit 10) s;
            dot = (r1 \<noteq> [] \<and> hd r1 = CHR ''.'');
            fp = (if dot then takeWhile (is_digit 10) (tl r1) else []);
            r2 = (if dot then dropWhile (is_digit 10) (tl r1) else r1)
        in if ip = [] \<and> fp = [] then NaN
           else (case ExponentPart r2 of
                   None \<Rightarrow> NaN
                 | Some e \<Rightarrow> Dec neg (digits_val 10 (ip @ fp)) (e - int (length fp))))"

definition NonDecimalIntegerLiteral :: "string \<Rightarrow> js_number option" where
  "NonDecimalIntegerLiteral s =
     (case s of
        z # p # ds \<Rightarrow>
          if z \<noteq> CHR ''0'' then None
          else if p = CHR ''x'' \<or> p = CHR ''X'' then
            Some (if all_digits 16 ds then Dec False (digits_val 16 ds) 0 else NaN)
          else if p = CHR ''o'' \<or> p = CHR ''O'' then
            Some (if all_digits 8 ds then Dec False (digits_val 8 ds) 0 else NaN)
          else if p = CHR ''b'' \<or> p = CHR ''B'' then
            Some (if all_digits 2 ds then Dec False (digits_val 2 ds) 0 else NaN)
          else None
      | _ \<Rightarrow> None)"

definition StringToNumber :: "string \<Rightarrow> js_number" where
  "StringToNumber str =
     (let s = trim str in
      case s of
        [] \<Rightarrow> Dec False 0 0
      | c # r \<Rightarrow>
          (case NonDecimalIntegerLiteral s of
             Some n \<Rightarrow> n
           | None \<Rightarrow>
               if c = CHR ''+'' then StrUnsignedDecimalLiteral False r
               else if c = CHR ''-'' then StrUnsignedDecimalLiteral True r
               else StrUnsignedDecimalLiteral False s))"

definition Number_js :: "string option \<Rightarrow> js_number" where
  \<comment> \<open>\<^verbatim>\<open>Number(process.env.X)\<close>: an unset variable is \<^verbatim>\<open>undefined\<close>\<close>
  "Number_js v = (case v of None \<Rightarrow> NaN | Some s \<Rightarrow> StringToNumber s)"

definition rounds_to_one :: "nat \<Rightarrow> int \<Rightarrow> bool" where
  \<comment> \<open>the double nearest to m * 10^e (ties to even) is 1.0: the value lies between the
      midpoints 1 - 2^-54 and 1 + 2^-53, both included since 1.0 has an even mantissa\<close>
  "rounds_to_one m e =
     (if 0 \<le> e then m * 10 ^ nat e = 1
      else (2 ^ 54 - 1) * 10 ^ nat (- e) \<le> m * 2 ^ 54 \<and>
           m * 2 ^ 53 \<le> (2 ^ 53 + 1) * 10 ^ nat (- e))"

fun strict_eq_1 :: "js_number \<Rightarrow> bool" where
  \<comment> \<open>\<^verbatim>\<open>x === 1\<close>\<close>
  "strict_eq_1 NaN = False"
| "strict_eq_1 (Infinity neg) = False"
| "strict_eq_1 (Dec neg m e) = (\<not> neg \<and> rounds_to_one m e)"

section \<open>Effects\<close>

text \<open>
  A script runs against the outside world: the PostgreSQL server behind the \<^verbatim>\<open>pg\<close> client,
  the password hasher and the file system. None of them is part of the repository, so the
  outside is a parameter: a state of type \<open>'s\<close> and the reactions of the outside to each
  call. The scripts call four methods on their client object: \<^verbatim>\<open>connect\<close>, \<^verbatim>\<open>query\<close> and
  \<^verbatim>\<open>end\<close>, and, in the seed script, \<^verbatim>\<open>execute\<close>; the last one is optional in the outside,
  since a client object need not have it. What the script does is recorded as a trace of
  events, in order.
\<close>

datatype js_error = JsError string string (code: "string option")
  \<comment> \<open>a thrown value: constructor name, message, and its \<^verbatim>\<open>code\<close> property if any\<close>

datatype js_value = Undefined | Str string | Num int

type_synonym row = "(string \<times> js_value) list"

definition field :: "row \<Rightarrow> string \<Rightarrow> js_value" where
  \<comment> \<open>property access \<^verbatim>\<open>row.k\<close>\<close>
  "field r k = (case map_of r k of None \<Rightarrow> Undefined | Some v \<Rightarrow> v)"

record client_config =
  host :: "string option"
  port :: js_number
  database :: "string option"
  user :: "string option"
  password :: "string option"

datatype log_arg = Text string | Err js_error

record migration_file =
  file_version :: nat
  file_sql :: string

datatype event =
    Connect client_config
  | Query string
  | Execute string "js_value list"
  | End
  | ScryptHash string
  | ExistsSync string
  | ReadMigrations string
  | ConsoleLog string
  | ConsoleError "log_arg list"

record 's outside =
  on_connect :: "client_config \<Rightarrow> 's \<Rightarrow> (js_error + unit) \<times> 's"
  on_query :: "string \<Rightarrow> 's \<Rightarrow> (js_error + row list) \<times> 's"
  on_execute :: "(string \<Rightarrow> js_value list \<Rightarrow> 's \<Rightarrow> (js_error + row list) \<times> 's) option"
  on_end :: "'s \<Rightarrow> (js_error + unit) \<times> 's"
  on_scryptHash :: "string \<Rightarrow> 's \<Rightarrow> (js_error + string) \<times> 's"
  on_existsSync :: "string \<Rightarrow> 's \<Rightarrow> bool"
  on_readMigrations :: "string \<Rightarrow> 's \<Rightarrow> migration_file list"

record 's world =
  store :: 's
  trace :: "event list"

type_synonym ('a, 's) io = "'s world \<Rightarrow> (js_error + 'a) \<times> 's world"

definition return :: "'a \<Rightarrow> ('a, 's) io" where
  "return x w = (Inr x, w)"

definition throw :: "js_error \<Rightarrow> ('a, 's) io" where
  "throw e w = (Inl e, w)"

definition await_then :: "('a, 's) io \<Rightarrow> ('a \<Rightarrow> ('b, 's) io) \<Rightarrow> ('b, 's) io" where
  \<comment> \<open>sequencing: a rejection or throw of the first part skips the rest\<close>
  "await_then m f w = (case m w of (Inl e, w1) \<Rightarrow> (Inl e, w1) | (Inr x, w1) \<Rightarrow> f x w1)"

definition try_catch :: "('a, 's) io \<Rightarrow> (js_error \<Rightarrow> ('a, 's) io) \<Rightarrow> ('a, 's) io" where
  "try_catch m h w = (case m w of (Inl e, w1) \<Rightarrow> h e w1 | (Inr x, w1) \<Rightarrow> (Inr x, w1))"

definition try_finally :: "('a, 's) io \<Rightarrow> (unit, 's) io \<Rightarrow> ('a, 's) io" where
  \<comment> \<open>the finaliser always runs; if it throws, its error replaces the outcome of the body\<close>
  "try_finally m fin w =
     (case m w of (r, w1) \<Rightarrow>
        (case fin w1 of (Inl e, w2) \<Rightarrow> (Inl e, w2) | (Inr _, w2) \<Rightarrow> (r, w2)))"

definition emit :: "event \<Rightarrow> 's world \<Rightarrow> 's world" where
  "emit ev w = w\<lparr>trace := trace w @ [ev]\<rparr>"

definition call :: "event \<Rightarrow> ('s \<Rightarrow> (js_error + 'a) \<times> 's) \<Rightarrow> ('a, 's) io" where
  \<comment> \<open>a call to the outside: the call is recorded, then the outside reacts\<close>
  "call ev react w = (case react (store w) of (r, s') \<Rightarrow> (r, (emit ev w)\<lparr>store := s'\<rparr>))"

definition connection_connect :: "'s outside \<Rightarrow> client_config \<Rightarrow> (unit, 's) io" where
  "connection_connect c cfg = call (Connect cfg) (on_connect c cfg)"

definition connection_query :: "'s outside \<Rightarrow> string \<Rightarrow> (row list, 's) io" where
  "connection_query c sql = call (Query sql) (on_query c sql)"

definition not_a_function :: js_error where
  "not_a_function = JsError ''TypeError'' ''connection.execute is not a function'' None"

definition connection_execute :: "'s outside \<Rightarrow> string \<Rightarrow> js_value list \<Rightarrow> (row list, 's) io" where
  \<comment> \<open>calling a method the client object does not have throws, and nothing is sent\<close>
  "connection_execute c sql params =
     (case on_execute c of
        None \<Rightarrow> throw not_a_function
      | Some react \<Rightarrow> call (Execute sql params) (react sql params))"

definition connection_end :: "'s outside \<Rightarrow> (unit, 's) io" where
  "connection_end c = call End (on_end c)"

definition console_log :: "string \<Rightarrow> (unit, 's) io" where
  "console_log msg w = (Inr (), emit (ConsoleLog msg) w)"

definition console_error :: "log_arg list \<Rightarrow> (unit, 's) io" where
  "console_error args w = (Inr (), emit (ConsoleError args) w)"

type_synonym env = "string \<Rightarrow> string option"

definition template :: "string option \<Rightarrow> string" where
  \<comment> \<open>\<^verbatim>\<open>${process.env.X}\<close> in a template literal\<close>
  "template v = (case v of None \<Rightarrow> ''undefined'' | Some s \<Rightarrow> s)"

section \<open>create-database.ts\<close>

definition create_database_sql :: "string \<Rightarrow> string" where
  \<comment> \<open>the template literal \<^verbatim>\<open>CREATE DATABASE "${process.env.POSTGRES_DATABASE}"\<close>\<close>
  "create_database_sql name = ''CREATE DATABASE \"'' @ name @ ''\"''"

definition createDB :: "'s outside \<Rightarrow> env \<Rightarrow> (unit, 's) io" where
  "createDB c env =
     try_catch
       (await_then
          (connection_query c (create_database_sql (template (env ''POSTGRES_DATABASE''))))
          (\<lambda>_. console_log
                 (''Database '' @ template (env ''POSTGRES_DATABASE'') @ '' created successfully.'')))
       (\<lambda>error.
          if code error = Some ''42P04'' then
            console_log (''Database '' @ template (env ''POSTGRES_DATABASE'') @ '' already exists.'')
          else throw error)"

definition connection_config :: "env \<Rightarrow> client_config" where
  "connection_config env =
     \<lparr>host = env ''POSTGRES_HOST'',
      port = Number_js (env ''POSTGRES_PORT''),
      database = env ''POSTGRES_DATABASE'',
      user = env ''POSTGRES_USER'',
      password = env ''POSTGRES_PASSWORD''\<rparr>"

definition createDatabase :: "'s outside \<Rightarrow> env \<Rightarrow> (unit, 's) io" where
  "createDatabase c env =
     await_then (connection_connect c (connection_config env))
       (\<lambda>_. try_finally
              (try_catch
                 (await_then (createDB c env)
                    (\<lambda>_. console_log
                           (''Database '' @ template (env ''POSTGRES_DATABASE'')
                              @ '' has been created successfully.'')))
                 (\<lambda>error. console_error [Text ''Error creating database:'', Err error]))
              (connection_end c))"

definition create_gate_error :: js_error where
  "create_gate_error =
     JsError ''Error''
       (''You can'' @ [CHR 0x27] @ ''t create the database. Set `CAN_CREATE_DATABASE=1` ''
          @ ''environment variable to allow this operation.'')
       None"

definition create_database_ts :: "'s outside \<Rightarrow> env \<Rightarrow> (unit, 's) io" where
  \<comment> \<open>the module body: the gate, then the call \<^verbatim>\<open>createDatabase()\<close>; a left result is an
      error that nothing caught (an uncaught exception or an unhandled rejection)\<close>
  "create_database_ts c env =
     (if \<not> strict_eq_1 (Number_js (env ''CAN_CREATE_DATABASE'')) then throw create_gate_error
      else createDatabase c env)"

section \<open>drop-database.ts\<close>

definition drop_database_sql :: "string \<Rightarrow> string" where
  \<comment> \<open>the template literal \<^verbatim>\<open>DROP DATABASE "${process.env.POSTGRES_DATABASE}"\<close>\<close>
  "drop_database_sql name = ''DROP DATABASE \"'' @ name @ ''\"''"

definition dropDB :: "'s outside \<Rightarrow> env \<Rightarrow> (unit, 's) io" where
  "dropDB c env =
     try_catch
       (await_then
          (connection_query c (drop_database_sql (template (env ''POSTGRES_DATABASE''))))
          (\<lambda>_. console_log (''Database '' @ template (env ''POSTGRES_DATABASE'') @ '' dropped.'')))
       (\<lambda>error.
          if code error = Some ''3D000'' then
            console_log (''Database '' @ template (env ''POSTGRES_DATABASE'') @ '' does not exist.'')
          else throw error)"

definition drop_config :: "env \<Rightarrow> client_config" where
  \<comment> \<open>no \<^verbatim>\<open>database\<close> key here\<close>
  "drop_config env =
     \<lparr>host = env ''POSTGRES_HOST'',
      port = Number_js (env ''POSTGRES_PORT''),
      database = None,
      user = env ''POSTGRES_USER'',
      password = env ''POSTGRES_PASSWORD''\<rparr>"

definition dropDatabase :: "'s outside \<Rightarrow> env \<Rightarrow> (unit, 's) io" where
  "dropDatabase c env =
     await_then (connection_connect c (drop_config env))
       (\<lambda>_. try_finally
              (try_catch
                 (await_then (dropDB c env)
                    (\<lambda>_. console_log
                           (''Database '' @ template (env ''POSTGRES_DATABASE'')
                              @ '' has been dropped successfully.'')))
                 (\<lambda>error. console_error [Text ''Error dropping database:'', Err error]))
              (connection_end c))"

definition drop_gate_error :: js_error where
  "drop_gate_error =
     JsError ''Error''
       (''You can'' @ [CHR 0x27] @ ''t drop the database. Set `CAN_DROP_DATABASE=1` ''
          @ ''environment variable to allow this operation.'')
       None"

definition drop_database_ts :: "'s outside \<Rightarrow> env \<Rightarrow> (unit, 's) io" where
  "drop_database_ts c env =
     (if \<not> strict_eq_1 (Number_js (env ''CAN_DROP_DATABASE'')) then throw drop_gate_error
      else dropDatabase c env)"

section \<open>The seed script\<close>

fun show_nat :: "nat \<Rightarrow> string" where
  "show_nat n =
     (if n < 10 then [char_of (48 + n)] else show_nat (n div 10) @ [char_of (48 + n mod 10)])"

definition to_string :: "js_value \<Rightarrow> string" where
  \<comment> \<open>a value inside a template literal\<close>
  "to_string v =
     (case v of
        Undefined \<Rightarrow> ''undefined''
      | Str s \<Rightarrow> s
      | Num n \<Rightarrow> (if n < 0 then ''-'' @ show_nat (nat (- n)) else show_nat (nat n)))"

fun join :: "string \<Rightarrow> string list \<Rightarrow> string" where
  "join sep [] = []"
| "join sep [x] = x"
| "join sep (x # y # ys) = x @ sep @ join sep (y # ys)"

definition select_tables_sql :: string where
  "select_tables_sql =
     [CHR 0x0A] @ ''    SELECT table_name '' @
     [CHR 0x0A] @ ''    FROM information_schema.tables '' @
     [CHR 0x0A] @ ''    WHERE table_schema = '' @ [CHR 0x27] @ ''public'' @ [CHR 0x27] @ '' '' @
     [CHR 0x0A] @ ''    AND table_type = '' @ [CHR 0x27] @ ''BASE TABLE'' @ [CHR 0x27] @
     [CHR 0x0A] @ ''  ''"

definition truncateQueries :: "row list \<Rightarrow> string" where
  "truncateQueries tables =
     join ''; ''
       (map (\<lambda>tableName. ''TRUNCATE TABLE \"'' @ to_string tableName @ ''\" RESTART IDENTITY CASCADE'')
          (map (\<lambda>row. field row ''table_name'') tables))"

definition truncateTables :: "'s outside \<Rightarrow> (unit, 's) io" where
  "truncateTables c =
     await_then (connection_query c select_tables_sql)
       (\<lambda>tables.
          if length tables > 0 then
            await_then (connection_query c (truncateQueries tables))
              (\<lambda>_. console_log ''All tables have been truncated successfully.'')
          else return ())"

record seed_user =
  username :: string
  email :: string

definition users :: "seed_user list" where
  "users =
     [\<lparr>username = ''basic'', email = ''basic@example.com''\<rparr>,
      \<lparr>username = ''moderator'', email = ''moderator@example.com''\<rparr>,
      \<lparr>username = ''admin'', email = ''admin@example.com''\<rparr>]"

definition insert_user_sql :: string where
  "insert_user_sql =
     [CHR 0x0A] @ ''      INSERT INTO users (username, email, password)'' @
     [CHR 0x0A] @ ''      VALUES (?, ?, ?)'' @
     [CHR 0x0A] @ ''    ''"

definition insert_role_sql :: string where
  "insert_role_sql =
     [CHR 0x0A] @ ''      INSERT INTO roles (name)'' @
     [CHR 0x0A] @ ''      VALUES (?)'' @
     [CHR 0x0A] @ ''    ''"

definition insert_user_role_sql :: string where
  "insert_user_role_sql =
     [CHR 0x0A] @ ''        INSERT INTO user_roles (user_id, role_id)'' @
     [CHR 0x0A] @ ''        VALUES (?, ?)'' @
     [CHR 0x0A] @ ''      ''"

definition scryptHash :: "'s outside \<Rightarrow> string \<Rightarrow> (string, 's) io" where
  \<comment> \<open>\<^verbatim>\<open>password-manager.js\<close> is not among the sources: the hasher is part of the outside\<close>
  "scryptHash c plain = call (ScryptHash plain) (on_scryptHash c plain)"

definition first_row_id :: "row list \<Rightarrow> (js_value, 's) io" where
  \<comment> \<open>\<^verbatim>\<open>(result as any).rows[0].id\<close>: reading \<^verbatim>\<open>id\<close> of a missing first row throws\<close>
  "first_row_id rows =
     (case rows of
        [] \<Rightarrow> throw (JsError ''TypeError''
                 (''Cannot read properties of undefined (reading '' @ [CHR 0x27] @ ''id'' @ [CHR 0x27] @ '')'')
                 None)
      | r # _ \<Rightarrow> return (field r ''id''))"

fun insert_user_roles :: "'s outside \<Rightarrow> js_value \<Rightarrow> js_value list \<Rightarrow> (unit, 's) io" where
  \<comment> \<open>the inner loop \<^verbatim>\<open>for (const roleId of rolesAccumulator)\<close>\<close>
  "insert_user_roles c userId [] = return ()"
| "insert_user_roles c userId (roleId # rest) =
     await_then (connection_execute c insert_user_role_sql [userId, roleId])
       (\<lambda>_. insert_user_roles c userId rest)"

fun seed_each_user :: "'s outside \<Rightarrow> string \<Rightarrow> js_value list \<Rightarrow> seed_user list \<Rightarrow> (unit, 's) io" where
  \<comment> \<open>the loop \<^verbatim>\<open>for (const user of users)\<close>, with the hash and \<^verbatim>\<open>rolesAccumulator\<close> as they
      stand when the iteration starts. The value \<^verbatim>\<open>connection.execute\<close> resolves to is taken
      in the shape the code destructures: an array whose first element has a \<^verbatim>\<open>rows\<close> array,
      here that array.\<close>
  "seed_each_user c hash rolesAccumulator [] = return ()"
| "seed_each_user c hash rolesAccumulator (u # rest) =
     await_then
       (connection_execute c insert_user_sql [Str (username u), Str (email u), Str hash])
       (\<lambda>userResult.
     await_then (first_row_id userResult)
       (\<lambda>userId.
     await_then (connection_execute c insert_role_sql [Str (username u)])
       (\<lambda>roleResult.
     await_then (first_row_id roleResult)
       (\<lambda>newRoleId.
     await_then (insert_user_roles c userId (rolesAccumulator @ [newRoleId]))
       (\<lambda>_. seed_each_user c hash (rolesAccumulator @ [newRoleId]) rest)))))"

definition seedUsers_of :: "seed_user list \<Rightarrow> 's outside \<Rightarrow> (unit, 's) io" where
  \<comment> \<open>the body of \<^verbatim>\<open>seedUsers\<close> for a given roster\<close>
  "seedUsers_of roster c =
     await_then (scryptHash c ''Password123$'')
       (\<lambda>hash.
     await_then (seed_each_user c hash [] roster)
       (\<lambda>_. console_log ''Users have been seeded successfully.''))"

definition seedUsers :: "'s outside \<Rightarrow> (unit, 's) io" where
  "seedUsers c = seedUsers_of users c"

definition seed :: "'s outside \<Rightarrow> env \<Rightarrow> (unit, 's) io" where
  "seed c env =
     await_then (connection_connect c (connection_config env))
       (\<lambda>_. try_finally
              (try_catch
                 (await_then (truncateTables c) (\<lambda>_. seedUsers c))
                 (\<lambda>error. console_error [Text ''Error seeding database:'', Err error]))
              (connection_end c))"

definition seed_gate_error :: js_error where
  "seed_gate_error =
     JsError ''Error''
       (''You can'' @ [CHR 0x27] @ ''t seed the database. Set `CAN_SEED_DATABASE=1` ''
          @ ''environment variable to allow this operation.'')
       None"

definition seed_ts :: "'s outside \<Rightarrow> env \<Rightarrow> (unit, 's) io" where
  "seed_ts c env =
     (if \<not> strict_eq_1 (Number_js (env ''CAN_SEED_DATABASE'')) then throw seed_gate_error
      else seed c env)"

section \<open>migrate.ts\<close>

subsection \<open>Postgrator\<close>

text \<open>
  Modelled from the spec: \<^verbatim>\<open>Postgrator.migrate\<close>, of the package \<^verbatim>\<open>postgrator\<close> that
  \<^verbatim>\<open>migrate.ts\<close> imports; its code is not among the sources. The spec's algorithm:
  enumerate the migration files, read the current version from the schema-version ledger
  (an empty ledger is version 0), then for each file with a greater version, in version
  order, execute its SQL as one statement and record its version; the first error aborts
  the run. Every statement goes through \<^verbatim>\<open>execQuery\<close>, which \<^verbatim>\<open>migrate.ts\<close> sets to
  \<^verbatim>\<open>connection.query\<close>.
\<close>

definition ledger_select_sql :: string where
  \<comment> \<open>Modelled from the spec: Postgrator reading the schema-version ledger\<close>
  "ledger_select_sql = ''SELECT version FROM schemaversion ORDER BY version DESC LIMIT 1''"

definition ledger_insert_sql :: "nat \<Rightarrow> string" where
  \<comment> \<open>Modelled from the spec: Postgrator recording a version as applied\<close>
  "ledger_insert_sql v = ''INSERT INTO schemaversion (version) VALUES ('' @ show_nat v @ '')''"

definition current_version :: "row list \<Rightarrow> nat" where
  \<comment> \<open>Modelled from the spec: Postgrator's current version; an empty ledger is version 0\<close>
  "current_version rows =
     (case rows of
        [] \<Rightarrow> 0
      | r # _ \<Rightarrow> (case field r ''version'' of Num n \<Rightarrow> nat n | _ \<Rightarrow> 0))"

fun run_pending :: "'s outside \<Rightarrow> migration_file list \<Rightarrow> (unit, 's) io" where
  \<comment> \<open>Modelled from the spec: Postgrator's loop; execute the SQL, then record the version\<close>
  "run_pending c [] = return ()"
| "run_pending c (m # ms) =
     await_then (connection_query c (file_sql m))
       (\<lambda>_. await_then (connection_query c (ledger_insert_sql (file_version m)))
              (\<lambda>_. run_pending c ms))"

definition pending :: "nat \<Rightarrow> migration_file list \<Rightarrow> migration_file list" where
  \<comment> \<open>Modelled from the spec: Postgrator's choice of the files to run, in version order\<close>
  "pending current files = filter (\<lambda>m. current < file_version m) (sort_key file_version files)"

definition postgrator_migrate :: "'s outside \<Rightarrow> string \<Rightarrow> (unit, 's) io" where
  \<comment> \<open>Modelled from the spec: \<^verbatim>\<open>Postgrator.migrate\<close>, package \<^verbatim>\<open>postgrator\<close>, not among the sources\<close>
  "postgrator_migrate c migrationPattern =
     await_then
       (call (ReadMigrations migrationPattern)
          (\<lambda>s. (Inr (on_readMigrations c migrationPattern s), s)))
       (\<lambda>files.
     await_then (connection_query c ledger_select_sql)
       (\<lambda>rows. run_pending c (pending (current_version rows) files)))"

subsection \<open>The script\<close>

definition existsSync :: "'s outside \<Rightarrow> string \<Rightarrow> (bool, 's) io" where
  "existsSync c path = call (ExistsSync path) (\<lambda>s. (Inr (on_existsSync c path s), s))"

definition missing_directory_error :: "string \<Rightarrow> js_error" where
  "missing_directory_error migrationDir =
     JsError ''Error''
       (''Migration directory \"'' @ migrationDir @ ''\" does not exist. Skipping migrations.'')
       None"

definition doMigration :: "'s outside \<Rightarrow> string \<Rightarrow> env \<Rightarrow> (unit, 's) io" where
  \<comment> \<open>\<open>migrationDir\<close> is the value of \<^verbatim>\<open>path.join(import.meta.dirname, '../migrations')\<close>\<close>
  "doMigration c migrationDir env =
     await_then (connection_connect c (connection_config env))
       (\<lambda>_. try_finally
              (try_catch
                 (await_then (existsSync c migrationDir)
                    (\<lambda>exists.
                       await_then
                         (if \<not> exists then throw (missing_directory_error migrationDir)
                          else return ())
                         (\<lambda>_. await_then (postgrator_migrate c (migrationDir @ ''/*''))
                                (\<lambda>_. console_log ''Migration completed!''))))
                 (\<lambda>err. console_error [Err err]))
              (try_catch (connection_end c) (\<lambda>err. console_error [Err err])))"

definition migrate_ts :: "'s outside \<Rightarrow> string \<Rightarrow> env \<Rightarrow> (unit, 's) io" where
  \<comment> \<open>no gate in this script\<close>
  "migrate_ts c migrationDir env = doMigration c migrationDir env"

definition run :: "('a, 's) io \<Rightarrow> 's \<Rightarrow> (js_error + 'a) \<times> 's world" where
  \<comment> \<open>one invocation of a script, as a fresh process\<close>
  "run script s = script \<lparr>store = s, trace = []\<rparr>"

section \<open>A reference server\<close>

text \<open>
  End states (is the database there, which rows do the tables hold, where is the ledger)
  are stated on one particular outside: a PostgreSQL server that keeps a catalogue of
  databases, the three tables the seed script writes to with their identity sequences
  (\<^verbatim>\<open>user_roles\<close> references the other two), the schema-version ledger and the list of other
  statements it was given; a hasher that salts; and a file system.

  The server reads the statements it is sent by itself. It accepts a connection only to a
  database of its catalogue and refuses any other with the error code 3D000.
  \<^verbatim>\<open>CREATE DATABASE\<close> of a database that exists fails with code 42P04; \<^verbatim>\<open>DROP DATABASE\<close> of one
  that does not exist fails with 3D000, and of the database the connection is open to with
  55006; a name that is not a well-formed delimited identifier is a syntax error, 42601.
  \<^verbatim>\<open>TRUNCATE\<close> of a table that \<^verbatim>\<open>user_roles\<close> references needs \<^verbatim>\<open>CASCADE\<close>, and restarts the
  sequence only with \<^verbatim>\<open>RESTART IDENTITY\<close>; a batch of statements is one transaction.

  The scripts build their client with \<^verbatim>\<open>new Client(...)\<close> of the package \<^verbatim>\<open>pg\<close>. That class
  has the methods \<^verbatim>\<open>connect\<close>, \<^verbatim>\<open>query\<close> and \<^verbatim>\<open>end\<close> and no method \<^verbatim>\<open>execute\<close>, and so has
  the reference outside. The outside \<open>executing\<close> is the same server behind a client that
  does have \<^verbatim>\<open>execute\<close>, answering in the shape the seed script reads: the inserted row
  with its \<^verbatim>\<open>id\<close>.
\<close>

record server =
  databases :: "string list"
  connected_to :: "string option"
  users_rows :: "(int \<times> string \<times> string \<times> string) list"
  roles_rows :: "(int \<times> string) list"
  user_roles_rows :: "(int \<times> int) list"
  users_id_seq :: int
  roles_id_seq :: int
  ledger :: "nat list"
  ran :: "string list"
  salts :: nat
  directories :: "(string \<times> migration_file list) list"

definition pg_error :: "string \<Rightarrow> string \<Rightarrow> js_error" where
  "pg_error msg c = JsError ''error'' msg (Some c)"

definition target_database :: "client_config \<Rightarrow> string" where
  \<comment> \<open>the client takes a missing \<^verbatim>\<open>database\<close> to be the user name; a missing user is the
      operating-system user, here \<^verbatim>\<open>postgres\<close>\<close>
  "target_database cfg =
     (case database cfg of
        Some n \<Rightarrow> n
      | None \<Rightarrow> (case user cfg of Some u \<Rightarrow> u | None \<Rightarrow> ''postgres''))"

definition server_connect :: "client_config \<Rightarrow> server \<Rightarrow> (js_error + unit) \<times> server" where
  "server_connect cfg s =
     (if target_database cfg \<in> set (databases s)
      then (Inr (), s\<lparr>connected_to := Some (target_database cfg)\<rparr>)
      else (Inl (pg_error ''database does not exist'' ''3D000''), s))"

definition server_end :: "server \<Rightarrow> (js_error + unit) \<times> server" where
  "server_end s = (Inr (), s\<lparr>connected_to := None\<rparr>)"

definition strip_prefix :: "string \<Rightarrow> string \<Rightarrow> string option" where
  "strip_prefix p str = (if take (length p) str = p then Some (drop (length p) str) else None)"

definition strip_suffix :: "string \<Rightarrow> string \<Rightarrow> string option" where
  "strip_suffix p str =
     (if length p \<le> length str \<and> drop (length str - length p) str = p
      then Some (take (length str - length p) str) else None)"

definition quoted_name :: "string \<Rightarrow> string \<Rightarrow> string option" where
  \<comment> \<open>the text between the quotes in a statement of the form: keyword, double quote, text,
      double quote\<close>
  "quoted_name keyword sql =
     (case strip_prefix (keyword @ [CHR 0x22]) sql of
        None \<Rightarrow> None
      | Some r \<Rightarrow> strip_suffix [CHR 0x22] r)"

fun unquote :: "string \<Rightarrow> string option" where
  \<comment> \<open>inside a delimited identifier a double quote is written twice\<close>
  "unquote [] = Some []"
| "unquote [c] = (if c = CHR 0x22 then None else Some [c])"
| "unquote (c # d # r) =
     (if c = CHR 0x22 then
        (if d = CHR 0x22 then map_option ((#) (CHR 0x22)) (unquote r) else None)
      else map_option ((#) c) (unquote (d # r)))"

definition delimited_identifier :: "string \<Rightarrow> string option" where
  \<comment> \<open>the name a delimited identifier denotes; it may not be empty\<close>
  "delimited_identifier raw = (if raw = [] then None else unquote raw)"

fun split_ws :: "string \<Rightarrow> string \<Rightarrow> string list" where
  "split_ws cur [] = (if cur = [] then [] else [cur])"
| "split_ws cur (c # r) =
     (if is_ws c then (if cur = [] then split_ws [] r else cur # split_ws [] r)
      else split_ws (cur @ [c]) r)"

definition sql_words :: "string \<Rightarrow> string list" where
  "sql_words sql = split_ws [] sql"

definition base_tables_words :: "string list" where
  \<comment> \<open>the query for the base tables of the schema \<^verbatim>\<open>public\<close>, word by word\<close>
  "base_tables_words =
     [''SELECT'', ''table_name'', ''FROM'', ''information_schema.tables'',
      ''WHERE'', ''table_schema'', ''='', [CHR 0x27] @ ''public'' @ [CHR 0x27],
      ''AND'', ''table_type'', ''='', [CHR 0x27] @ ''BASE'', ''TABLE'' @ [CHR 0x27]]"

definition server_tables :: "row list" where
  "server_tables =
     [[(''table_name'', Str ''users'')], [(''table_name'', Str ''roles'')],
      [(''table_name'', Str ''user_roles'')]]"

fun split_on :: "char \<Rightarrow> string \<Rightarrow> string \<Rightarrow> string list" where
  "split_on sep cur [] = [cur]"
| "split_on sep cur (c # r) =
     (if c = sep then cur # split_on sep [] r else split_on sep (cur @ [c]) r)"

definition truncate_statement :: "string \<Rightarrow> (string \<times> string) option" where
  \<comment> \<open>the table name and the options of one \<^verbatim>\<open>TRUNCATE TABLE "name" options\<close>\<close>
  "truncate_statement st =
     (case strip_prefix (''TRUNCATE TABLE '' @ [CHR 0x22]) st of
        None \<Rightarrow> None
      | Some r \<Rightarrow>
          (case dropWhile (\<lambda>c. c \<noteq> CHR 0x22) r of
             [] \<Rightarrow> None
           | q # opts \<Rightarrow> Some (takeWhile (\<lambda>c. c \<noteq> CHR 0x22) r, opts)))"

definition truncate_batch :: "string \<Rightarrow> (string \<times> string) list option" where
  \<comment> \<open>a batch of \<^verbatim>\<open>TRUNCATE\<close> statements separated by semicolons\<close>
  "truncate_batch sql =
     (let sts = map (truncate_statement \<circ> trim) (split_on (CHR '';'') [] sql)
      in if list_all (\<lambda>st. st \<noteq> None) sts then Some (map the sts) else None)"

definition truncate_table :: "string \<Rightarrow> string \<Rightarrow> server \<Rightarrow> js_error + server" where
  "truncate_table name opts s =
     (let restart = (opts = '' RESTART IDENTITY'' \<or> opts = '' RESTART IDENTITY CASCADE'');
          cascade = (opts = '' CASCADE'' \<or> opts = '' RESTART IDENTITY CASCADE'')
      in if opts \<noteq> [] \<and> \<not> restart \<and> \<not> cascade then Inl (pg_error ''syntax error'' ''42601'')
         else if name = ''users'' then
           (if cascade then
              Inr (s\<lparr>users_rows := [], user_roles_rows := [],
                     users_id_seq := (if restart then 0 else users_id_seq s)\<rparr>)
            else Inl (pg_error ''cannot truncate a table referenced in a foreign key constraint''
                        ''0A000''))
         else if name = ''roles'' then
           (if cascade then
              Inr (s\<lparr>roles_rows := [], user_roles_rows := [],
                     roles_id_seq := (if restart then 0 else roles_id_seq s)\<rparr>)
            else Inl (pg_error ''cannot truncate a table referenced in a foreign key constraint''
                        ''0A000''))
         else if name = ''user_roles'' then Inr (s\<lparr>user_roles_rows := []\<rparr>)
         else Inl (pg_error ''relation does not exist'' ''42P01''))"

fun truncate_all :: "(string \<times> string) list \<Rightarrow> server \<Rightarrow> js_error + server" where
  "truncate_all [] s = Inr s"
| "truncate_all ((name, opts) # rest) s =
     (case truncate_table name opts s of Inl e \<Rightarrow> Inl e | Inr s' \<Rightarrow> truncate_all rest s')"

definition ledger_insert_version :: "string \<Rightarrow> nat option" where
  "ledger_insert_version sql =
     (case strip_prefix ''INSERT INTO schemaversion (version) VALUES ('' sql of
        None \<Rightarrow> None
      | Some r \<Rightarrow>
          (case strip_suffix '')'' r of
             None \<Rightarrow> None
           | Some ds \<Rightarrow> if all_digits 10 ds then Some (digits_val 10 ds) else None))"

definition plain_sql :: "string \<Rightarrow> bool" where
  \<comment> \<open>a statement the server has no reading of, such as the body of a migration: it is run
      and listed\<close>
  "plain_sql sql =
     (quoted_name ''CREATE DATABASE '' sql = None \<and>
      quoted_name ''DROP DATABASE '' sql = None \<and>
      sql_words sql \<noteq> base_tables_words \<and>
      truncate_batch sql = None \<and>
      sql_words sql \<noteq> [''SELECT'', ''version'', ''FROM'', ''schemaversion'', ''ORDER'', ''BY'',
                         ''version'', ''DESC'', ''LIMIT'', ''1''] \<and>
      ledger_insert_version sql = None)"

definition server_query :: "string \<Rightarrow> server \<Rightarrow> (js_error + row list) \<times> server" where
  "server_query sql s =
     (case quoted_name ''CREATE DATABASE '' sql of
        Some raw \<Rightarrow>
          (case delimited_identifier raw of
             None \<Rightarrow> (Inl (pg_error ''syntax error'' ''42601''), s)
           | Some n \<Rightarrow>
               if n \<in> set (databases s)
               then (Inl (pg_error ''database already exists'' ''42P04''), s)
               else (Inr [], s\<lparr>databases := databases s @ [n]\<rparr>))
      | None \<Rightarrow>
     (case quoted_name ''DROP DATABASE '' sql of
        Some raw \<Rightarrow>
          (case delimited_identifier raw of
             None \<Rightarrow> (Inl (pg_error ''syntax error'' ''42601''), s)
           | Some n \<Rightarrow>
               if connected_to s = Some n
               then (Inl (pg_error ''cannot drop the currently open database'' ''55006''), s)
               else if n \<in> set (databases s)
               then (Inr [], s\<lparr>databases := removeAll n (databases s)\<rparr>)
               else (Inl (pg_error ''database does not exist'' ''3D000''), s))
      | None \<Rightarrow>
     if sql_words sql = base_tables_words then (Inr server_tables, s)
     else
     (case truncate_batch sql of
        Some sts \<Rightarrow>
          (case truncate_all sts s of
             Inl e \<Rightarrow> (Inl e, s)
           | Inr s' \<Rightarrow> (Inr [], s'))
      | None \<Rightarrow>
     if sql_words sql = [''SELECT'', ''version'', ''FROM'', ''schemaversion'', ''ORDER'', ''BY'',
                         ''version'', ''DESC'', ''LIMIT'', ''1'']
     then (Inr (if ledger s = [] then [] else [[(''version'', Num (int (Max (set (ledger s)))))]]), s)
     else
     (case ledger_insert_version sql of
        Some v \<Rightarrow> (Inr [], s\<lparr>ledger := ledger s @ [v]\<rparr>)
      | None \<Rightarrow> (Inr [], s\<lparr>ran := ran s @ [sql]\<rparr>)))))"

definition server_execute ::
  "string \<Rightarrow> js_value list \<Rightarrow> server \<Rightarrow> (js_error + row list) \<times> server" where
  \<comment> \<open>the three parameterised inserts, read word by word\<close>
  "server_execute sql params s =
     (if sql_words sql = [''INSERT'', ''INTO'', ''users'', ''(username,'', ''email,'', ''password)'',
                          ''VALUES'', ''(?,'', ''?,'', ''?)''] then
        (case params of
           [Str n, Str e, Str p] \<Rightarrow>
             (Inr [[(''id'', Num (users_id_seq s + 1))]],
              s\<lparr>users_rows := users_rows s @ [(users_id_seq s + 1, n, e, p)],
                users_id_seq := users_id_seq s + 1\<rparr>)
         | _ \<Rightarrow> (Inl (pg_error ''null value violates not-null constraint'' ''23502''), s))
      else if sql_words sql = [''INSERT'', ''INTO'', ''roles'', ''(name)'', ''VALUES'', ''(?)''] then
        (case params of
           [Str n] \<Rightarrow>
             (Inr [[(''id'', Num (roles_id_seq s + 1))]],
              s\<lparr>roles_rows := roles_rows s @ [(roles_id_seq s + 1, n)],
                roles_id_seq := roles_id_seq s + 1\<rparr>)
         | _ \<Rightarrow> (Inl (pg_error ''null value violates not-null constraint'' ''23502''), s))
      else if sql_words sql = [''INSERT'', ''INTO'', ''user_roles'', ''(user_id,'', ''role_id)'',
                               ''VALUES'', ''(?,'', ''?)''] then
        (case params of
           [Num u, Num r] \<Rightarrow> (Inr [], s\<lparr>user_roles_rows := user_roles_rows s @ [(u, r)]\<rparr>)
         | _ \<Rightarrow> (Inl (pg_error ''null value violates not-null constraint'' ''23502''), s))
      else (Inl (pg_error ''syntax error'' ''42601''), s))"

definition server_scryptHash :: "string \<Rightarrow> server \<Rightarrow> (js_error + string) \<times> server" where
  "server_scryptHash plain s =
     (Inr (show_nat (salts s) @ ''.'' @ rev plain), s\<lparr>salts := salts s + 1\<rparr>)"

definition reference :: "server outside" where
  "reference =
     \<lparr>on_connect = server_connect,
      on_query = server_query,
      on_execute = None,
      on_end = server_end,
      on_scryptHash = server_scryptHash,
      on_existsSync = (\<lambda>path s. map_of (directories s) path \<noteq> None),
      on_readMigrations =
        (\<lambda>pattern s.
           case strip_suffix ''/*'' pattern of
             None \<Rightarrow> []
           | Some dir \<Rightarrow> (case map_of (directories s) dir of None \<Rightarrow> [] | Some fs \<Rightarrow> fs))\<rparr>"

definition executing :: "server outside" where
  "executing = reference\<lparr>on_execute := Some server_execute\<rparr>"

definition env_of :: "(string \<times> string) list \<Rightarrow> env" where
  \<comment> \<open>the environment holding exactly these variables\<close>
  "env_of vars = map_of vars"

definition empty_server :: server where
  "empty_server =
     \<lparr>databases = [], connected_to = None, users_rows = [], roles_rows = [],
      user_roles_rows = [], users_id_seq = 0, roles_id_seq = 0, ledger = [], ran = [],
      salts = 0, directories = []\<rparr>"

section \<open>Reading traces\<close>

definition body_event :: "event \<Rightarrow> bool" where
  \<comment> \<open>any event but opening and closing the connection\<close>
  "body_event ev = (case ev of Connect _ \<Rightarrow> False | End \<Rightarrow> False | _ \<Rightarrow> True)"

definition is_insert :: "event \<Rightarrow> bool" where
  \<comment> \<open>the inserts of the seed script are its only \<^verbatim>\<open>connection.execute\<close> calls\<close>
  "is_insert ev = (case ev of Execute _ _ \<Rightarrow> True | _ \<Rightarrow> False)"

definition appends :: "(event \<Rightarrow> bool) \<Rightarrow> ('a, 's) io \<Rightarrow> bool" where
  \<comment> \<open>the action only adds events to the trace, all of them of the given kind\<close>
  "appends P m = (\<forall>w. \<exists>t. trace (snd (m w)) = trace w @ t \<and> list_all P t)"

definition denying :: "server outside" where
  \<comment> \<open>the reference server, for a role that may not run the statement\<close>
  "denying = reference\<lparr>on_query := (\<lambda>sql s. (Inl (pg_error ''permission denied'' ''42501''), s))\<rparr>"

definition fresh_cluster :: server where
  \<comment> \<open>a server that has the database \<^verbatim>\<open>postgres\<close> only\<close>
  "fresh_cluster = empty_server\<lparr>databases := [''postgres'']\<rparr>"

definition has_app :: server where
  \<comment> \<open>a server that has the databases \<^verbatim>\<open>postgres\<close> and \<^verbatim>\<open>app\<close>\<close>
  "has_app = empty_server\<lparr>databases := [''postgres'', ''app'']\<rparr>"

definition stale_rows :: server where
  \<comment> \<open>the database \<^verbatim>\<open>app\<close> with rows of an earlier seeding in each table\<close>
  "stale_rows =
     has_app\<lparr>users_rows := [(7, ''old'', ''old@example.com'', ''x'')],
             roles_rows := [(4, ''old'')],
             user_roles_rows := [(7, 4)],
             users_id_seq := 7,
             roles_id_seq := 4\<rparr>"

definition app_env :: env where
  \<comment> \<open>every gate open, the database named \<^verbatim>\<open>app\<close>\<close>
  "app_env =
     env_of [(''CAN_CREATE_DATABASE'', ''1''), (''CAN_DROP_DATABASE'', ''1''),
             (''CAN_SEED_DATABASE'', ''1''), (''POSTGRES_DATABASE'', ''app'')]"

definition migration_001 :: migration_file where
  "migration_001 = \<lparr>file_version = 1, file_sql = ''CREATE TABLE users (id SERIAL PRIMARY KEY)''\<rparr>"

definition migration_002 :: migration_file where
  "migration_002 = \<lparr>file_version = 2, file_sql = ''CREATE TABLE tasks (id SERIAL PRIMARY KEY)''\<rparr>"

definition migration_003 :: migration_file where
  "migration_003 = \<lparr>file_version = 3, file_sql = ''CREATE TABLE roles (id SERIAL PRIMARY KEY)''\<rparr>"

definition one_applied :: server where
  \<comment> \<open>the files 003, 001, 002 listed in that order, version 1 in the ledger\<close>
  "one_applied =
     has_app\<lparr>ledger := [1],
             directories := [(''/app/migrations'', [migration_003, migration_001, migration_002])]\<rparr>"

section \<open>The permission gate\<close>

lemmas StringToNumber_defs =
  Number_js_def StringToNumber_def trim_def is_ws_def NonDecimalIntegerLiteral_def
  StrUnsignedDecimalLiteral_def ExponentPart_def all_digits_def is_digit_def digit_of_def
  digits_val_def rounds_to_one_def

lemma not_one_undefined: "\<not> strict_eq_1 (Number_js None)"
  by (simp add: Number_js_def)

lemma not_one_0: "\<not> strict_eq_1 (Number_js (Some ''0''))"
  by code_simp

lemma not_one_true: "\<not> strict_eq_1 (Number_js (Some ''true''))"
  by code_simp

lemma not_one_empty: "\<not> strict_eq_1 (Number_js (Some ''''))"
  by code_simp

lemma one_1: "strict_eq_1 (Number_js (Some ''1''))"
  by code_simp

lemma one_01: "strict_eq_1 (Number_js (Some ''01''))"
  by code_simp

lemma one_sp1: "strict_eq_1 (Number_js (Some '' 1''))"
  by code_simp

lemma one_1dot0: "strict_eq_1 (Number_js (Some ''1.0''))"
  by (simp add: StringToNumber_defs)

text \<open>
  Claim C1. Whenever the numeric value of the gating flag is not exactly 1, the gated
  script (create, drop, seed) throws its permission error and leaves the world as it found
  it: the trace has no new event, so no connection was opened, and the store is unchanged.
  A missing flag, \<^verbatim>\<open>"0"\<close>, \<^verbatim>\<open>"true"\<close> and the empty string are such values.
\<close>

theorem gate_refuses:
  "(\<not> strict_eq_1 (Number_js (env ''CAN_CREATE_DATABASE'')) \<longrightarrow>
      create_database_ts c env w = (Inl create_gate_error, w)) \<and>
   (\<not> strict_eq_1 (Number_js (env ''CAN_DROP_DATABASE'')) \<longrightarrow>
      drop_database_ts c env w = (Inl drop_gate_error, w)) \<and>
   (\<not> strict_eq_1 (Number_js (env ''CAN_SEED_DATABASE'')) \<longrightarrow>
      seed_ts c env w = (Inl seed_gate_error, w)) \<and>
   \<not> strict_eq_1 (Number_js None) \<and>
   \<not> strict_eq_1 (Number_js (Some ''0'')) \<and>
   \<not> strict_eq_1 (Number_js (Some ''true'')) \<and>
   \<not> strict_eq_1 (Number_js (Some ''''))"
proof -
  have "\<not> strict_eq_1 (Number_js (env ''CAN_CREATE_DATABASE'')) \<longrightarrow>
      create_database_ts c env w = (Inl create_gate_error, w)"
    by (simp add: create_database_ts_def throw_def)
  moreover have "\<not> strict_eq_1 (Number_js (env ''CAN_DROP_DATABASE'')) \<longrightarrow>
      drop_database_ts c env w = (Inl drop_gate_error, w)"
    by (simp add: drop_database_ts_def throw_def)
  moreover have "\<not> strict_eq_1 (Number_js (env ''CAN_SEED_DATABASE'')) \<longrightarrow>
      seed_ts c env w = (Inl seed_gate_error, w)"
    by (simp add: seed_ts_def throw_def)
  moreover note not_one_undefined not_one_0 not_one_true not_one_empty
  ultimately show ?thesis by (intro conjI)
qed

theorem gate_refuses_witness:
  "run (create_database_ts reference (env_of [(''CAN_CREATE_DATABASE'', ''true'')])) empty_server
     = (Inl create_gate_error, \<lparr>store = empty_server, trace = []\<rparr>) \<and>
   run (drop_database_ts reference (env_of [(''CAN_CREATE_DATABASE'', ''true'')])) empty_server
     = (Inl drop_gate_error, \<lparr>store = empty_server, trace = []\<rparr>) \<and>
   run (seed_ts reference (env_of [(''CAN_CREATE_DATABASE'', ''true'')])) empty_server
     = (Inl seed_gate_error, \<lparr>store = empty_server, trace = []\<rparr>)"
proof -
  let ?env = "env_of [(''CAN_CREATE_DATABASE'', ''true'')]"
  have 1: "\<not> strict_eq_1 (Number_js (?env ''CAN_CREATE_DATABASE''))"
    by (simp add: env_of_def not_one_true)
  have 2: "\<not> strict_eq_1 (Number_js (?env ''CAN_DROP_DATABASE''))"
    by (simp add: env_of_def not_one_undefined)
  have 3: "\<not> strict_eq_1 (Number_js (?env ''CAN_SEED_DATABASE''))"
    by (simp add: env_of_def not_one_undefined)
  from gate_refuses [of ?env reference "\<lparr>store = empty_server, trace = []\<rparr>"] 1 2 3
  show ?thesis unfolding run_def by simp
qed

section \<open>What a script adds to the trace\<close>

lemma appendsI: "(\<And>w. \<exists>t. trace (snd (m w)) = trace w @ t \<and> list_all P t) \<Longrightarrow> appends P m"
  by (simp add: appends_def)

lemma appendsD: "appends P m \<Longrightarrow> \<exists>t. trace (snd (m w)) = trace w @ t \<and> list_all P t"
  by (simp add: appends_def)

lemma appends_return [intro!]: "appends P (return x)"
  by (simp add: appends_def return_def)

lemma appends_throw [intro!]: "appends P (throw e)"
  by (simp add: appends_def throw_def)

lemma appends_call [intro]: "P ev \<Longrightarrow> appends P (call ev react)"
  by (auto simp: appends_def call_def emit_def split: prod.splits)

lemma appends_console_log [intro]: "P (ConsoleLog msg) \<Longrightarrow> appends P (console_log msg)"
  by (simp add: appends_def console_log_def emit_def)

lemma appends_console_error [intro]: "P (ConsoleError args) \<Longrightarrow> appends P (console_error args)"
  by (simp add: appends_def console_error_def emit_def)

lemma appends_await_then [intro!]:
  assumes "appends P m" and "\<And>x. appends P (f x)"
  shows "appends P (await_then m f)"
proof (rule appendsI)
  fix w
  obtain r w1 where m: "m w = (r, w1)" by (cases "m w")
  from appendsD[OF assms(1), of w] m obtain t1 where t1: "trace w1 = trace w @ t1" "list_all P t1"
    by auto
  show "\<exists>t. trace (snd (await_then m f w)) = trace w @ t \<and> list_all P t"
  proof (cases r)
    case (Inl e)
    with m t1 show ?thesis by (simp add: await_then_def)
  next
    case (Inr x)
    from appendsD[OF assms(2), of x w1] obtain t2
      where "trace (snd (f x w1)) = trace w1 @ t2" "list_all P t2" by auto
    with m t1 Inr show ?thesis by (simp add: await_then_def)
  qed
qed

lemma appends_try_catch [intro!]:
  assumes "appends P m" and "\<And>e. appends P (h e)"
  shows "appends P (try_catch m h)"
proof (rule appendsI)
  fix w
  obtain r w1 where m: "m w = (r, w1)" by (cases "m w")
  from appendsD[OF assms(1), of w] m obtain t1 where t1: "trace w1 = trace w @ t1" "list_all P t1"
    by auto
  show "\<exists>t. trace (snd (try_catch m h w)) = trace w @ t \<and> list_all P t"
  proof (cases r)
    case (Inr x)
    with m t1 show ?thesis by (simp add: try_catch_def)
  next
    case (Inl e)
    from appendsD[OF assms(2), of e w1] obtain t2
      where "trace (snd (h e w1)) = trace w1 @ t2" "list_all P t2" by auto
    with m t1 Inl show ?thesis by (simp add: try_catch_def)
  qed
qed

lemma appends_try_finally [intro!]:
  assumes "appends P m" and "appends P fin"
  shows "appends P (try_finally m fin)"
proof (rule appendsI)
  fix w
  obtain r w1 where m: "m w = (r, w1)" by (cases "m w")
  from appendsD[OF assms(1), of w] m obtain t1 where t1: "trace w1 = trace w @ t1" "list_all P t1"
    by auto
  obtain r2 w2 where f: "fin w1 = (r2, w2)" by (cases "fin w1")
  from appendsD[OF assms(2), of w1] f obtain t2 where t2: "trace w2 = trace w1 @ t2" "list_all P t2"
    by auto
  from m f t1 t2 show "\<exists>t. trace (snd (try_finally m fin w)) = trace w @ t \<and> list_all P t"
    by (cases r2) (simp_all add: try_finally_def)
qed

lemma appends_if [intro!]:
  "(b \<Longrightarrow> appends P m) \<Longrightarrow> (\<not> b \<Longrightarrow> appends P n) \<Longrightarrow> appends P (if b then m else n)"
  by simp

lemma appends_weaken: "appends P m \<Longrightarrow> (\<And>ev. P ev \<Longrightarrow> Q ev) \<Longrightarrow> appends Q m"
  unfolding appends_def list_all_iff by metis

lemma appends_createDB: "appends body_event (createDB c env)"
  unfolding createDB_def connection_query_def
  by (auto simp: body_event_def)

lemma appends_dropDB: "appends body_event (dropDB c env)"
  unfolding dropDB_def connection_query_def
  by (auto simp: body_event_def)

lemma appends_first_row_id: "appends P (first_row_id rows)"
  unfolding first_row_id_def by (cases rows) auto

lemma appends_connection_execute: "appends body_event (connection_execute c sql params)"
  unfolding connection_execute_def by (cases "on_execute c") (auto simp: body_event_def)

lemma appends_insert_user_roles: "appends body_event (insert_user_roles c userId acc)"
  by (induction acc) (auto intro!: appends_connection_execute)

lemma appends_seed_each_user: "appends body_event (seed_each_user c hash acc roster)"
  by (induction roster arbitrary: acc)
     (auto intro!: appends_connection_execute appends_first_row_id appends_insert_user_roles)

lemma appends_seedUsers: "appends body_event (seedUsers c)"
  unfolding seedUsers_def seedUsers_of_def scryptHash_def
  by (auto simp: body_event_def intro!: appends_seed_each_user)

lemma appends_truncateTables: "appends (\<lambda>ev. body_event ev \<and> \<not> is_insert ev) (truncateTables c)"
  unfolding truncateTables_def connection_query_def
  by (auto simp: body_event_def is_insert_def)



lemma connect_then:
  assumes "\<And>x. appends P (f x)"
  shows "\<exists>t. trace (snd (await_then (connection_connect c cfg) f w)) = trace w @ Connect cfg # t"
proof -
  obtain r s1 where r: "on_connect c cfg (store w) = (r, s1)"
    by (cases "on_connect c cfg (store w)")
  show ?thesis
  proof (cases r)
    case (Inl e)
    with r show ?thesis
      by (simp add: await_then_def connection_connect_def call_def emit_def)
  next
    case (Inr x)
    let ?w1 = "(emit (Connect cfg) w)\<lparr>store := s1\<rparr>"
    from appendsD[OF assms, of x ?w1] obtain t
      where "trace (snd (f x ?w1)) = trace ?w1 @ t" by auto
    with r Inr show ?thesis
      by (simp add: await_then_def connection_connect_def call_def emit_def)
  qed
qed

lemma createDatabase_connects:
  "\<exists>t. trace (snd (createDatabase c env w)) = trace w @ Connect (connection_config env) # t"
  unfolding createDatabase_def
  by (rule connect_then [where P = "\<lambda>_. True"])
     (auto intro!: appends_weaken [OF appends_createDB] simp: connection_end_def)

lemma dropDatabase_connects:
  "\<exists>t. trace (snd (dropDatabase c env w)) = trace w @ Connect (drop_config env) # t"
  unfolding dropDatabase_def
  by (rule connect_then [where P = "\<lambda>_. True"])
     (auto intro!: appends_weaken [OF appends_dropDB] simp: connection_end_def)

lemma seed_connects:
  "\<exists>t. trace (snd (seed c env w)) = trace w @ Connect (connection_config env) # t"
  unfolding seed_def
  by (rule connect_then [where P = "\<lambda>_. True"])
     (auto intro!: appends_weaken [OF appends_truncateTables] appends_weaken [OF appends_seedUsers]
           simp: connection_end_def)

section \<open>Running against the reference server\<close>

lemma strip_prefix_append [simp]: "strip_prefix p (p @ r) = Some r"
  by (simp add: strip_prefix_def)

lemma strip_suffix_append [simp]: "strip_suffix p (r @ p) = Some r"
  by (simp add: strip_suffix_def)

lemma server_query_create_app:
  "server_query (create_database_sql ''app'') s =
     (if ''app'' \<in> set (databases s) then (Inl (pg_error ''database already exists'' ''42P04''), s)
      else (Inr [], s\<lparr>databases := databases s @ [''app'']\<rparr>))"
  by (simp add: server_query_def create_database_sql_def quoted_name_def strip_prefix_def
        strip_suffix_def delimited_identifier_def)

lemmas io_defs =
  run_def return_def throw_def await_then_def try_catch_def try_finally_def emit_def call_def
  connection_connect_def connection_query_def connection_execute_def connection_end_def
  console_log_def console_error_def

lemma reference_simps [simp]:
  "on_connect reference = server_connect"
  "on_query reference = server_query"
  "on_execute reference = None"
  "on_end reference = server_end"
  "on_scryptHash reference = server_scryptHash"
  by (simp_all add: reference_def)

lemma app_env_simps [simp]:
  "app_env ''CAN_CREATE_DATABASE'' = Some ''1''"
  "app_env ''CAN_DROP_DATABASE'' = Some ''1''"
  "app_env ''CAN_SEED_DATABASE'' = Some ''1''"
  "app_env ''POSTGRES_DATABASE'' = Some ''app''"
  "connection_config app_env =
     \<lparr>host = None, port = NaN, database = Some ''app'', user = None, password = None\<rparr>"
  "drop_config app_env =
     \<lparr>host = None, port = NaN, database = None, user = None, password = None\<rparr>"
  by (simp_all add: app_env_def env_of_def connection_config_def drop_config_def Number_js_def)

lemma target_database_simps [simp]:
  "target_database \<lparr>host = h, port = p, database = Some n, user = u, password = pw\<rparr> = n"
  "target_database \<lparr>host = h, port = p, database = None, user = None, password = pw\<rparr> = ''postgres''"
  by (simp_all add: target_database_def)

lemma has_app_simps [simp]:
  "databases has_app = [''postgres'', ''app'']"
  "connected_to has_app = None"
  "has_app\<lparr>connected_to := None\<rparr> = has_app"
  "directories has_app = []"
  by (simp_all add: has_app_def empty_server_def)

section \<open>The gate compares numbers\<close>

text \<open>
  Claim C9, as stated, fails: with the flag \<^verbatim>\<open>"01"\<close>, which is not the string \<^verbatim>\<open>"1"\<close>, the
  create script is not refused; it connects and sends \<^verbatim>\<open>CREATE DATABASE\<close>.
\<close>

theorem literal_flag_counterexample:
  "''01'' \<noteq> ''1'' \<and>
   run (create_database_ts reference
          (env_of [(''CAN_CREATE_DATABASE'', ''01''), (''POSTGRES_DATABASE'', ''app'')]))
       has_app
   = (Inr (),
      \<lparr>store = has_app,
       trace =
         [Connect \<lparr>host = None, port = NaN, database = Some ''app'', user = None, password = None\<rparr>,
          Query (create_database_sql ''app''),
          ConsoleLog ''Database app already exists.'',
          ConsoleLog ''Database app has been created successfully.'',
          End]\<rparr>)"
proof -
  let ?env = "env_of [(''CAN_CREATE_DATABASE'', ''01''), (''POSTGRES_DATABASE'', ''app'')]"
  have flag: "?env ''CAN_CREATE_DATABASE'' = Some ''01''"
    and name: "?env ''POSTGRES_DATABASE'' = Some ''app''"
    and cfg: "connection_config ?env =
      \<lparr>host = None, port = NaN, database = Some ''app'', user = None, password = None\<rparr>"
    by (simp_all add: env_of_def connection_config_def Number_js_def)
  show ?thesis
    by (simp add: create_database_ts_def createDatabase_def createDB_def flag name cfg one_01
          template_def io_defs server_connect_def server_end_def server_query_create_app
          pg_error_def)
qed

text \<open>
  Claim C9, amended. A gated script is refused exactly when the numeric value of its flag,
  as \<^verbatim>\<open>Number\<close> converts it, is not 1. The string \<^verbatim>\<open>"1"\<close> has the value 1, and so have
  \<^verbatim>\<open>"01"\<close>, \<^verbatim>\<open>" 1"\<close> and \<^verbatim>\<open>"1.0"\<close>: all four open the gate.
\<close>

theorem gate_is_numeric:
  "(create_database_ts c env w = (Inl create_gate_error, w))
     = (\<not> strict_eq_1 (Number_js (env ''CAN_CREATE_DATABASE''))) \<and>
   (drop_database_ts c env w = (Inl drop_gate_error, w))
     = (\<not> strict_eq_1 (Number_js (env ''CAN_DROP_DATABASE''))) \<and>
   (seed_ts c env w = (Inl seed_gate_error, w))
     = (\<not> strict_eq_1 (Number_js (env ''CAN_SEED_DATABASE''))) \<and>
   strict_eq_1 (Number_js (Some ''1'')) \<and>
   strict_eq_1 (Number_js (Some ''01'')) \<and>
   strict_eq_1 (Number_js (Some '' 1'')) \<and>
   strict_eq_1 (Number_js (Some ''1.0''))"
proof -
  have "(create_database_ts c env w = (Inl create_gate_error, w))
     = (\<not> strict_eq_1 (Number_js (env ''CAN_CREATE_DATABASE'')))"
  proof (cases "strict_eq_1 (Number_js (env ''CAN_CREATE_DATABASE''))")
    case True
    from createDatabase_connects [of c env w]
    have "snd (createDatabase c env w) \<noteq> w" by auto
    with True show ?thesis by (auto simp: create_database_ts_def)
  next
    case False
    then show ?thesis by (simp add: create_database_ts_def throw_def)
  qed
  moreover have "(drop_database_ts c env w = (Inl drop_gate_error, w))
     = (\<not> strict_eq_1 (Number_js (env ''CAN_DROP_DATABASE'')))"
  proof (cases "strict_eq_1 (Number_js (env ''CAN_DROP_DATABASE''))")
    case True
    from dropDatabase_connects [of c env w]
    have "snd (dropDatabase c env w) \<noteq> w" by auto
    with True show ?thesis by (auto simp: drop_database_ts_def)
  next
    case False
    then show ?thesis by (simp add: drop_database_ts_def throw_def)
  qed
  moreover have "(seed_ts c env w = (Inl seed_gate_error, w))
     = (\<not> strict_eq_1 (Number_js (env ''CAN_SEED_DATABASE'')))"
  proof (cases "strict_eq_1 (Number_js (env ''CAN_SEED_DATABASE''))")
    case True
    from seed_connects [of c env w]
    have "snd (seed c env w) \<noteq> w" by auto
    with True show ?thesis by (auto simp: seed_ts_def)
  next
    case False
    then show ?thesis by (simp add: seed_ts_def throw_def)
  qed
  moreover note one_1 one_01 one_sp1 one_1dot0
  ultimately show ?thesis by (intro conjI)
qed

theorem gate_is_numeric_witness:
  "run (drop_database_ts reference (env_of [(''CAN_DROP_DATABASE'', ''1.0'')])) empty_server
     \<noteq> (Inl drop_gate_error, \<lparr>store = empty_server, trace = []\<rparr>) \<and>
   run (seed_ts reference (env_of [(''CAN_DROP_DATABASE'', ''1.0'')])) empty_server
     = (Inl seed_gate_error, \<lparr>store = empty_server, trace = []\<rparr>)"
proof -
  let ?env = "env_of [(''CAN_DROP_DATABASE'', ''1.0'')]"
  have 1: "strict_eq_1 (Number_js (?env ''CAN_DROP_DATABASE''))"
    by (simp add: env_of_def one_1dot0)
  have 2: "\<not> strict_eq_1 (Number_js (?env ''CAN_SEED_DATABASE''))"
    by (simp add: env_of_def not_one_undefined)
  from gate_is_numeric [of reference ?env "\<lparr>store = empty_server, trace = []\<rparr>"] 1 2
  show ?thesis unfolding run_def by simp
qed

section \<open>Create and drop\<close>

lemma createDB_result:
  "createDB c env w =
     (case on_query c (create_database_sql (template (env ''POSTGRES_DATABASE''))) (store w) of
        (Inr rows, s1) \<Rightarrow>
          (Inr (),
           w\<lparr>store := s1,
             trace := trace w @
               [Query (create_database_sql (template (env ''POSTGRES_DATABASE''))),
                ConsoleLog (''Database '' @ template (env ''POSTGRES_DATABASE'')
                              @ '' created successfully.'')]\<rparr>)
      | (Inl e, s1) \<Rightarrow>
          if code e = Some ''42P04'' then
            (Inr (),
             w\<lparr>store := s1,
               trace := trace w @
                 [Query (create_database_sql (template (env ''POSTGRES_DATABASE''))),
                  ConsoleLog (''Database '' @ template (env ''POSTGRES_DATABASE'')
                                @ '' already exists.'')]\<rparr>)
          else
            (Inl e,
             w\<lparr>store := s1,
               trace := trace w @
                 [Query (create_database_sql (template (env ''POSTGRES_DATABASE'')))]\<rparr>))"
  by (simp add: createDB_def io_defs split: prod.splits sum.splits)

lemma dropDB_result:
  "dropDB c env w =
     (case on_query c (drop_database_sql (template (env ''POSTGRES_DATABASE''))) (store w) of
        (Inr rows, s1) \<Rightarrow>
          (Inr (),
           w\<lparr>store := s1,
             trace := trace w @
               [Query (drop_database_sql (template (env ''POSTGRES_DATABASE''))),
                ConsoleLog (''Database '' @ template (env ''POSTGRES_DATABASE'') @ '' dropped.'')]\<rparr>)
      | (Inl e, s1) \<Rightarrow>
          if code e = Some ''3D000'' then
            (Inr (),
             w\<lparr>store := s1,
               trace := trace w @
                 [Query (drop_database_sql (template (env ''POSTGRES_DATABASE''))),
                  ConsoleLog (''Database '' @ template (env ''POSTGRES_DATABASE'')
                                @ '' does not exist.'')]\<rparr>)
          else
            (Inl e,
             w\<lparr>store := s1,
               trace := trace w @
                 [Query (drop_database_sql (template (env ''POSTGRES_DATABASE'')))]\<rparr>))"
  by (simp add: dropDB_def io_defs split: prod.splits sum.splits)


lemma benign_errors_are_notices:
  "on_query c (create_database_sql (template (env ''POSTGRES_DATABASE''))) (store w) = (Inl e, s1)
     \<Longrightarrow> code e = Some ''42P04'' \<Longrightarrow>
   createDB c env w =
     (Inr (),
      w\<lparr>store := s1,
        trace := trace w @
          [Query (create_database_sql (template (env ''POSTGRES_DATABASE''))),
           ConsoleLog (''Database '' @ template (env ''POSTGRES_DATABASE'') @ '' already exists.'')]\<rparr>)"
  "on_query c (drop_database_sql (template (env ''POSTGRES_DATABASE''))) (store w) = (Inl e, s1)
     \<Longrightarrow> code e = Some ''3D000'' \<Longrightarrow>
   dropDB c env w =
     (Inr (),
      w\<lparr>store := s1,
        trace := trace w @
          [Query (drop_database_sql (template (env ''POSTGRES_DATABASE''))),
           ConsoleLog (''Database '' @ template (env ''POSTGRES_DATABASE'') @ '' does not exist.'')]\<rparr>)"
  by (simp_all add: createDB_result dropDB_result)

lemma server_query_drop_app:
  "server_query (drop_database_sql ''app'') s =
     (if connected_to s = Some ''app''
      then (Inl (pg_error ''cannot drop the currently open database'' ''55006''), s)
      else if ''app'' \<in> set (databases s)
      then (Inr [], s\<lparr>databases := removeAll ''app'' (databases s)\<rparr>)
      else (Inl (pg_error ''database does not exist'' ''3D000''), s))"
  by (simp add: server_query_def drop_database_sql_def quoted_name_def strip_prefix_def
        strip_suffix_def delimited_identifier_def)

lemma drop_reaches_absent:
  assumes "''postgres'' \<in> set (databases s)"
  shows "fst (run (drop_database_ts reference app_env) s) = Inr ()"
    and "store (snd (run (drop_database_ts reference app_env) s)) =
           s\<lparr>databases := removeAll ''app'' (databases s), connected_to := None\<rparr>"
    and "run (drop_database_ts reference app_env)
           (s\<lparr>databases := removeAll ''app'' (databases s), connected_to := None\<rparr>) =
         (Inr (),
          \<lparr>store = s\<lparr>databases := removeAll ''app'' (databases s), connected_to := None\<rparr>,
           trace =
             [Connect (drop_config app_env),
              Query (drop_database_sql ''app''),
              ConsoleLog ''Database app does not exist.'',
              ConsoleLog ''Database app has been dropped successfully.'',
              End]\<rparr>)"
  using assms
  by (simp_all add: drop_database_ts_def dropDatabase_def dropDB_def one_1 template_def io_defs
        server_connect_def server_end_def server_query_drop_app pg_error_def)

text \<open>
  Claim C2 describes what the two scripts are written to do, and the create script does
  not get there. \<^verbatim>\<open>createDB\<close> and \<^verbatim>\<open>dropDB\<close> do take the two error codes as notices (lemma
  \<open>benign_errors_are_notices\<close>). But \<^verbatim>\<open>createDatabase\<close> opens its connection to the database
  it is about to create, which \<^verbatim>\<open>dropDatabase\<close> does not (its runs do end with the
  database absent, lemma \<open>drop_reaches_absent\<close>). On a server that has no database
  \<^verbatim>\<open>app\<close> the connection is refused with the code 3D000, outside the \<^verbatim>\<open>try\<close> block: the run
  ends with that error uncaught, \<^verbatim>\<open>CREATE DATABASE\<close> is never sent and the server is as
  before, so every further run ends the same way.
\<close>

theorem create_cannot_connect:
  "run (create_database_ts reference app_env) (s\<lparr>databases := removeAll ''app'' (databases s)\<rparr>) =
     (Inl (pg_error ''database does not exist'' ''3D000''),
      \<lparr>store = s\<lparr>databases := removeAll ''app'' (databases s)\<rparr>,
       trace = [Connect (connection_config app_env)]\<rparr>) \<and>
   run (create_database_ts reference app_env)
       (store (snd (run (create_database_ts reference app_env)
                      (s\<lparr>databases := removeAll ''app'' (databases s)\<rparr>)))) =
     (Inl (pg_error ''database does not exist'' ''3D000''),
      \<lparr>store = s\<lparr>databases := removeAll ''app'' (databases s)\<rparr>,
       trace = [Connect (connection_config app_env)]\<rparr>) \<and>
   run (create_database_ts reference app_env) fresh_cluster =
     (Inl (pg_error ''database does not exist'' ''3D000''),
      \<lparr>store = fresh_cluster, trace = [Connect (connection_config app_env)]\<rparr>)"
proof -
  have r: "run (create_database_ts reference app_env) s' =
     (Inl (pg_error ''database does not exist'' ''3D000''),
      \<lparr>store = s', trace = [Connect (connection_config app_env)]\<rparr>)"
    if "''app'' \<notin> set (databases s')" for s'
    using that
    by (simp add: create_database_ts_def createDatabase_def one_1 server_connect_def
          run_def await_then_def connection_connect_def call_def emit_def)
  have 1: "''app'' \<notin> set (databases (s\<lparr>databases := removeAll ''app'' (databases s)\<rparr>))"
    by simp
  have 2: "''app'' \<notin> set (databases fresh_cluster)"
    by (simp add: fresh_cluster_def empty_server_def)
  show ?thesis
    using r [OF 1] r [OF 2] by simp
qed

section \<open>Other store errors\<close>

lemma denying_simps [simp]:
  "on_connect denying = server_connect"
  "on_query denying sql s = (Inl (pg_error ''permission denied'' ''42501''), s)"
  "on_end denying = server_end"
  by (simp_all add: denying_def reference_def)

text \<open>
  Claim C5, as stated, fails: when the server refuses \<^verbatim>\<open>CREATE DATABASE\<close> with the error code
  42501, which is not the benign 42P04, the create script logs the error, closes the
  connection and completes normally; nothing reaches the process boundary.
\<close>

theorem other_error_counterexample:
  "code (pg_error ''permission denied'' ''42501'') \<noteq> Some ''42P04'' \<and>
   run (create_database_ts denying app_env) has_app =
     (Inr (),
      \<lparr>store = has_app,
       trace =
         [Connect \<lparr>host = None, port = NaN, database = Some ''app'', user = None, password = None\<rparr>,
          Query (create_database_sql ''app''),
          ConsoleError [Text ''Error creating database:'', Err (pg_error ''permission denied'' ''42501'')],
          End]\<rparr>)"
  by (simp add: create_database_ts_def createDatabase_def createDB_result one_1 template_def
        pg_error_def run_def await_then_def try_catch_def try_finally_def emit_def call_def
        connection_connect_def connection_end_def console_log_def console_error_def
        server_connect_def server_end_def)

text \<open>
  Claim C5, amended. For every store error other than the expected-benign one, \<^verbatim>\<open>createDB\<close>
  (\<^verbatim>\<open>dropDB\<close>) rethrows it, and \<^verbatim>\<open>createDatabase\<close> (\<^verbatim>\<open>dropDatabase\<close>) catches it and logs it with
  \<^verbatim>\<open>console.error\<close>; the connection is then released and the script ends with whatever
  \<^verbatim>\<open>connection.end()\<close> yields, normally when that succeeds. The success message is not logged.
\<close>

theorem other_errors_are_logged:
  "(on_query c (create_database_sql (template (env ''POSTGRES_DATABASE''))) (store w) = (Inl e, s2)
      \<and> code e \<noteq> Some ''42P04'' \<longrightarrow> fst (createDB c env w) = Inl e) \<and>
   (on_query c (drop_database_sql (template (env ''POSTGRES_DATABASE''))) (store w) = (Inl e, s2)
      \<and> code e \<noteq> Some ''3D000'' \<longrightarrow> fst (dropDB c env w) = Inl e) \<and>
   (strict_eq_1 (Number_js (env ''CAN_CREATE_DATABASE''))
      \<and> on_connect c (connection_config env) (store w) = (Inr (), s1)
      \<and> on_query c (create_database_sql (template (env ''POSTGRES_DATABASE''))) s1 = (Inl e, s2)
      \<and> code e \<noteq> Some ''42P04''
      \<and> on_end c s2 = (r, s3) \<longrightarrow>
    create_database_ts c env w =
      (r, w\<lparr>store := s3,
            trace := trace w @
              [Connect (connection_config env),
               Query (create_database_sql (template (env ''POSTGRES_DATABASE''))),
               ConsoleError [Text ''Error creating database:'', Err e],
               End]\<rparr>)) \<and>
   (strict_eq_1 (Number_js (env ''CAN_DROP_DATABASE''))
      \<and> on_connect c (drop_config env) (store w) = (Inr (), s1)
      \<and> on_query c (drop_database_sql (template (env ''POSTGRES_DATABASE''))) s1 = (Inl e, s2)
      \<and> code e \<noteq> Some ''3D000''
      \<and> on_end c s2 = (r, s3) \<longrightarrow>
    drop_database_ts c env w =
      (r, w\<lparr>store := s3,
            trace := trace w @
              [Connect (drop_config env),
               Query (drop_database_sql (template (env ''POSTGRES_DATABASE''))),
               ConsoleError [Text ''Error dropping database:'', Err e],
               End]\<rparr>))"
proof (intro conjI impI)
  assume "on_query c (create_database_sql (template (env ''POSTGRES_DATABASE''))) (store w) = (Inl e, s2)
            \<and> code e \<noteq> Some ''42P04''"
  then show "fst (createDB c env w) = Inl e" by (simp add: createDB_result)
next
  assume "on_query c (drop_database_sql (template (env ''POSTGRES_DATABASE''))) (store w) = (Inl e, s2)
            \<and> code e \<noteq> Some ''3D000''"
  then show "fst (dropDB c env w) = Inl e" by (simp add: dropDB_result)
next
  assume "strict_eq_1 (Number_js (env ''CAN_CREATE_DATABASE''))
      \<and> on_connect c (connection_config env) (store w) = (Inr (), s1)
      \<and> on_query c (create_database_sql (template (env ''POSTGRES_DATABASE''))) s1 = (Inl e, s2)
      \<and> code e \<noteq> Some ''42P04''
      \<and> on_end c s2 = (r, s3)"
  then show "create_database_ts c env w =
      (r, w\<lparr>store := s3,
            trace := trace w @
              [Connect (connection_config env),
               Query (create_database_sql (template (env ''POSTGRES_DATABASE''))),
               ConsoleError [Text ''Error creating database:'', Err e],
               End]\<rparr>)"
    by (cases r)
       (simp_all add: create_database_ts_def createDatabase_def createDB_result
          await_then_def try_catch_def try_finally_def emit_def call_def
          connection_connect_def connection_end_def console_log_def console_error_def)
next
  assume "strict_eq_1 (Number_js (env ''CAN_DROP_DATABASE''))
      \<and> on_connect c (drop_config env) (store w) = (Inr (), s1)
      \<and> on_query c (drop_database_sql (template (env ''POSTGRES_DATABASE''))) s1 = (Inl e, s2)
      \<and> code e \<noteq> Some ''3D000''
      \<and> on_end c s2 = (r, s3)"
  then show "drop_database_ts c env w =
      (r, w\<lparr>store := s3,
            trace := trace w @
              [Connect (drop_config env),
               Query (drop_database_sql (template (env ''POSTGRES_DATABASE''))),
               ConsoleError [Text ''Error dropping database:'', Err e],
               End]\<rparr>)"
    by (cases r)
       (simp_all add: drop_database_ts_def dropDatabase_def dropDB_result
          await_then_def try_catch_def try_finally_def emit_def call_def
          connection_connect_def connection_end_def console_log_def console_error_def)
qed

theorem other_errors_are_logged_witness:
  "fst (createDB denying app_env \<lparr>store = has_app, trace = []\<rparr>)
     = Inl (pg_error ''permission denied'' ''42501'') \<and>
   fst (dropDB denying app_env \<lparr>store = has_app, trace = []\<rparr>)
     = Inl (pg_error ''permission denied'' ''42501'') \<and>
   create_database_ts denying app_env \<lparr>store = has_app, trace = []\<rparr> =
     (Inr (),
      \<lparr>store = has_app,
       trace =
         [Connect (connection_config app_env),
          Query (create_database_sql ''app''),
          ConsoleError [Text ''Error creating database:'', Err (pg_error ''permission denied'' ''42501'')],
          End]\<rparr>) \<and>
   drop_database_ts denying app_env \<lparr>store = has_app, trace = []\<rparr> =
     (Inr (),
      \<lparr>store = has_app,
       trace =
         [Connect (drop_config app_env),
          Query (drop_database_sql ''app''),
          ConsoleError [Text ''Error dropping database:'', Err (pg_error ''permission denied'' ''42501'')],
          End]\<rparr>)"
proof -
  let ?w = "\<lparr>store = has_app, trace = []\<rparr> :: server world"
  let ?e = "pg_error ''permission denied'' ''42501''"
  have g: "strict_eq_1 (Number_js (app_env ''CAN_CREATE_DATABASE''))"
          "strict_eq_1 (Number_js (app_env ''CAN_DROP_DATABASE''))"
    by (simp_all add: one_1)
  have k: "code ?e \<noteq> Some ''42P04''" "code ?e \<noteq> Some ''3D000''"
    by (simp_all add: pg_error_def)
  have c1: "on_connect denying (connection_config app_env) (store ?w)
              = (Inr (), has_app\<lparr>connected_to := Some ''app''\<rparr>)"
    and c2: "on_connect denying (drop_config app_env) (store ?w)
              = (Inr (), has_app\<lparr>connected_to := Some ''postgres''\<rparr>)"
    and e1: "on_end denying (has_app\<lparr>connected_to := Some ''app''\<rparr>) = (Inr (), has_app)"
    and e2: "on_end denying (has_app\<lparr>connected_to := Some ''postgres''\<rparr>) = (Inr (), has_app)"
    by (simp_all add: server_connect_def server_end_def)
  note T0 = other_errors_are_logged [of denying app_env ?w ?e has_app]
  note T1 = other_errors_are_logged
         [of denying app_env ?w ?e "has_app\<lparr>connected_to := Some ''app''\<rparr>"
             "has_app\<lparr>connected_to := Some ''app''\<rparr>" "Inr ()" has_app]
  note T2 = other_errors_are_logged
         [of denying app_env ?w ?e "has_app\<lparr>connected_to := Some ''postgres''\<rparr>"
             "has_app\<lparr>connected_to := Some ''postgres''\<rparr>" "Inr ()" has_app]
  from T0 k have 1: "fst (createDB denying app_env ?w) = Inl ?e"
    and 2: "fst (dropDB denying app_env ?w) = Inl ?e"
    by (simp_all add: template_def)
  from T1 g k c1 e1 have 3: "create_database_ts denying app_env ?w =
     (Inr (),
      \<lparr>store = has_app,
       trace =
         [Connect (connection_config app_env),
          Query (create_database_sql ''app''),
          ConsoleError [Text ''Error creating database:'', Err ?e],
          End]\<rparr>)"
    by (simp add: template_def)
  from T2 g k c2 e2 have 4: "drop_database_ts denying app_env ?w =
     (Inr (),
      \<lparr>store = has_app,
       trace =
         [Connect (drop_config app_env),
          Query (drop_database_sql ''app''),
          ConsoleError [Text ''Error dropping database:'', Err ?e],
          End]\<rparr>)"
    by (simp add: template_def)
  from 1 2 3 4 show ?thesis by (intro conjI)
qed

section \<open>The connection is released\<close>










section \<open>The migration directory and the ledger\<close>

text \<open>
  Claim C7, as stated, fails: with no migration directory, the script has opened its
  connection before it looks for the directory, and the error it then throws is caught
  and logged; the script completes normally.
\<close>

theorem missing_directory_counterexample:
  "run (migrate_ts reference ''/app/migrations'' app_env) has_app =
     (Inr (),
      \<lparr>store = has_app,
       trace =
         [Connect \<lparr>host = None, port = NaN, database = Some ''app'', user = None, password = None\<rparr>,
          ExistsSync ''/app/migrations'',
          ConsoleError [Err (missing_directory_error ''/app/migrations'')],
          End]\<rparr>)"
  by (simp add: migrate_ts_def doMigration_def existsSync_def reference_def
        server_connect_def server_end_def
        run_def await_then_def try_catch_def try_finally_def emit_def call_def throw_def
        connection_connect_def connection_end_def console_error_def)

text \<open>
  Claim C7, amended. The migration script opens its connection first; if that fails the
  directory is never looked for. If it succeeds and the migration directory is absent,
  the script throws before Postgrator is constructed, so no statement is issued; the
  error is caught and logged, the connection is closed, and the script completes normally.
\<close>

theorem missing_directory_is_logged:
  "(on_connect c (connection_config env) (store w) = (Inl e, s1) \<longrightarrow>
    migrate_ts c migrationDir env w =
      (Inl e, w\<lparr>store := s1, trace := trace w @ [Connect (connection_config env)]\<rparr>)) \<and>
   (on_connect c (connection_config env) (store w) = (Inr (), s1)
      \<and> \<not> on_existsSync c migrationDir s1
      \<and> on_end c s1 = (r, s2) \<longrightarrow>
    migrate_ts c migrationDir env w =
      (Inr (),
       w\<lparr>store := s2,
         trace := trace w @
           [Connect (connection_config env),
            ExistsSync migrationDir,
            ConsoleError [Err (missing_directory_error migrationDir)],
            End] @ (case r of Inl e' \<Rightarrow> [ConsoleError [Err e']] | Inr _ \<Rightarrow> [])\<rparr>))"
proof (intro conjI impI)
  assume "on_connect c (connection_config env) (store w) = (Inl e, s1)"
  then show "migrate_ts c migrationDir env w =
      (Inl e, w\<lparr>store := s1, trace := trace w @ [Connect (connection_config env)]\<rparr>)"
    by (simp add: migrate_ts_def doMigration_def await_then_def connection_connect_def
          call_def emit_def)
next
  assume "on_connect c (connection_config env) (store w) = (Inr (), s1)
      \<and> \<not> on_existsSync c migrationDir s1
      \<and> on_end c s1 = (r, s2)"
  then show "migrate_ts c migrationDir env w =
      (Inr (),
       w\<lparr>store := s2,
         trace := trace w @
           [Connect (connection_config env),
            ExistsSync migrationDir,
            ConsoleError [Err (missing_directory_error migrationDir)],
            End] @ (case r of Inl e' \<Rightarrow> [ConsoleError [Err e']] | Inr _ \<Rightarrow> [])\<rparr>)"
    by (cases r)
       (simp_all add: migrate_ts_def doMigration_def existsSync_def
          await_then_def try_catch_def try_finally_def emit_def call_def throw_def
          connection_connect_def connection_end_def console_error_def)
qed

theorem missing_directory_is_logged_witness:
  "migrate_ts reference ''/app/migrations'' app_env \<lparr>store = fresh_cluster, trace = []\<rparr> =
     (Inl (pg_error ''database does not exist'' ''3D000''),
      \<lparr>store = fresh_cluster, trace = [Connect (connection_config app_env)]\<rparr>) \<and>
   migrate_ts reference ''/app/migrations'' app_env \<lparr>store = has_app, trace = []\<rparr> =
     (Inr (),
      \<lparr>store = has_app,
       trace =
         [Connect (connection_config app_env),
          ExistsSync ''/app/migrations'',
          ConsoleError [Err (missing_directory_error ''/app/migrations'')],
          End]\<rparr>)"
proof -
  let ?fresh = "\<lparr>store = fresh_cluster, trace = []\<rparr> :: server world"
  let ?w = "\<lparr>store = has_app, trace = []\<rparr> :: server world"
  let ?s1 = "has_app\<lparr>connected_to := Some ''app''\<rparr>"
  have a: "on_connect reference (connection_config app_env) (store ?fresh)
             = (Inl (pg_error ''database does not exist'' ''3D000''), fresh_cluster)"
    by (simp add: server_connect_def fresh_cluster_def empty_server_def)
  have b: "on_connect reference (connection_config app_env) (store ?w) = (Inr (), ?s1)
             \<and> \<not> on_existsSync reference ''/app/migrations'' ?s1
             \<and> on_end reference ?s1 = (Inr (), has_app)"
    by (simp add: server_connect_def server_end_def reference_def)
  from missing_directory_is_logged
         [of reference app_env ?fresh "pg_error ''database does not exist'' ''3D000''"
             fresh_cluster "''/app/migrations''"] a
  have 1: "migrate_ts reference ''/app/migrations'' app_env ?fresh =
     (Inl (pg_error ''database does not exist'' ''3D000''),
      \<lparr>store = fresh_cluster, trace = [Connect (connection_config app_env)]\<rparr>)"
    by simp
  from missing_directory_is_logged
         [of reference app_env ?w _ ?s1 "''/app/migrations''" "Inr ()" has_app] b
  have 2: "migrate_ts reference ''/app/migrations'' app_env ?w =
     (Inr (),
      \<lparr>store = has_app,
       trace =
         [Connect (connection_config app_env),
          ExistsSync ''/app/migrations'',
          ConsoleError [Err (missing_directory_error ''/app/migrations'')],
          End]\<rparr>)"
    by simp
  from 1 2 show ?thesis by (intro conjI)
qed

lemma reference_files [simp]:
  "on_existsSync reference dir s = (map_of (directories s) dir \<noteq> None)"
  "on_readMigrations reference (dir @ ''/*'') s =
     (case map_of (directories s) dir of None \<Rightarrow> [] | Some fs \<Rightarrow> fs)"
  using strip_suffix_append [of "''/*''" dir]
  by (simp_all add: reference_def del: strip_suffix_append)

lemma three_files_sorted:
  assumes m: "mset files = {#f1, f2, f3#}"
    and v: "file_version f1 = 1" "file_version f2 = 2" "file_version f3 = 3"
  shows "sort_key file_version files = [f1, f2, f3]"
proof (rule sort_key_inj_key_eq)
  show "mset files = mset [f1, f2, f3]"
    using m by (simp add: add_mset_commute)
  have "set files = {f1, f2, f3}"
    using m by (metis mset_eq_setD mset.simps set_mset_add_mset_insert set_mset_empty
                  set_mset_mset list.simps(15) list.set(1) insert_commute)
  then show "inj_on file_version (set files)"
    using v by (auto simp add: inj_on_def)
  show "sorted (map file_version [f1, f2, f3])"
    using v by simp
qed

lemma pending_three_files:
  assumes "mset files = {#f1, f2, f3#}"
    and "file_version f1 = 1" "file_version f2 = 2" "file_version f3 = 3"
  shows "pending (Suc 0) files = [f2, f3]" and "pending 3 files = []"
  using assms three_files_sorted [OF assms] by (simp_all add: pending_def)

lemma sql_words_ledger_select:
  "sql_words ledger_select_sql =
     [''SELECT'', ''version'', ''FROM'', ''schemaversion'', ''ORDER'', ''BY'',
      ''version'', ''DESC'', ''LIMIT'', ''1'']"
  by (simp add: sql_words_def ledger_select_sql_def is_ws_def)

lemma server_query_ledger_select:
  "server_query ledger_select_sql s =
     (Inr (if ledger s = [] then [] else [[(''version'', Num (int (Max (set (ledger s)))))]]), s)"
proof -
  have "quoted_name ''CREATE DATABASE '' ledger_select_sql = None"
       "quoted_name ''DROP DATABASE '' ledger_select_sql = None"
       "truncate_batch ledger_select_sql = None"
    by (simp_all add: ledger_select_sql_def quoted_name_def strip_prefix_def truncate_batch_def
          truncate_statement_def trim_def is_ws_def)
  moreover have "sql_words ledger_select_sql \<noteq> base_tables_words"
    by (simp add: sql_words_ledger_select base_tables_words_def)
  ultimately show ?thesis
    by (simp add: server_query_def sql_words_ledger_select)
qed

lemma ledger_insert_sql_23:
  "ledger_insert_sql 2 = ''INSERT INTO schemaversion (version) VALUES (2)''"
  "ledger_insert_sql 3 = ''INSERT INTO schemaversion (version) VALUES (3)''"
  by (simp_all add: ledger_insert_sql_def show_nat.simps char_of_def bit_0)

lemma server_query_ledger_insert:
  "server_query (ledger_insert_sql 2) s = (Inr [], s\<lparr>ledger := ledger s @ [2]\<rparr>)"
  "server_query (ledger_insert_sql 3) s = (Inr [], s\<lparr>ledger := ledger s @ [3]\<rparr>)"
proof -
  have v: "ledger_insert_version (ledger_insert_sql 2) = Some 2"
          "ledger_insert_version (ledger_insert_sql 3) = Some 3"
    by (simp_all add: ledger_insert_sql_23 ledger_insert_version_def strip_prefix_def
          strip_suffix_def all_digits_def is_digit_def digit_of_def digits_val_def)
  have q: "quoted_name ''CREATE DATABASE '' (ledger_insert_sql 2) = None"
          "quoted_name ''DROP DATABASE '' (ledger_insert_sql 2) = None"
          "quoted_name ''CREATE DATABASE '' (ledger_insert_sql 3) = None"
          "quoted_name ''DROP DATABASE '' (ledger_insert_sql 3) = None"
    by (simp_all add: ledger_insert_sql_23 quoted_name_def strip_prefix_def)
  have b: "truncate_batch (ledger_insert_sql 2) = None"
          "truncate_batch (ledger_insert_sql 3) = None"
    by (simp_all add: ledger_insert_sql_23 truncate_batch_def
          truncate_statement_def strip_prefix_def trim_def is_ws_def)
  have w: "sql_words (ledger_insert_sql 2) =
             [''INSERT'', ''INTO'', ''schemaversion'', ''(version)'', ''VALUES'', ''(2)'']"
          "sql_words (ledger_insert_sql 3) =
             [''INSERT'', ''INTO'', ''schemaversion'', ''(version)'', ''VALUES'', ''(3)'']"
    by (simp_all add: ledger_insert_sql_23 sql_words_def is_ws_def)
  show "server_query (ledger_insert_sql 2) s = (Inr [], s\<lparr>ledger := ledger s @ [2]\<rparr>)"
    by (simp add: server_query_def q b w v base_tables_words_def)
  show "server_query (ledger_insert_sql 3) s = (Inr [], s\<lparr>ledger := ledger s @ [3]\<rparr>)"
    by (simp add: server_query_def q b w v base_tables_words_def)
qed

lemma server_query_plain:
  "plain_sql sql \<Longrightarrow> server_query sql s = (Inr [], s\<lparr>ran := ran s @ [sql]\<rparr>)"
  by (simp add: server_query_def plain_sql_def)

lemma migration_bodies_plain:
  "plain_sql (file_sql migration_002)" "plain_sql (file_sql migration_003)"
  by (simp_all add: plain_sql_def migration_002_def migration_003_def quoted_name_def
        strip_prefix_def truncate_batch_def truncate_statement_def trim_def is_ws_def
        sql_words_def base_tables_words_def ledger_insert_version_def)

text \<open>
  Claim C6, on the model of Postgrator written from the spec. Let the migration directory
  list, in any order, three files of the versions 1, 2 and 3, with any bodies the server
  runs as ordinary statements, and let the ledger hold version 1 only. Then the migration
  script run against the reference server executes the body of the file of version 2,
  records 2, executes the body of the file of version 3, records 3, and sends no other
  statement but the reading of the ledger; the ledger then holds 1, 2, 3. A second run
  executes no migration and leaves the server as it is.
\<close>

theorem pending_migrations_run_in_order:
  "ledger s = [1] \<and> target_database (connection_config env) \<in> set (databases s) \<and>
   map_of (directories s) dir = Some files \<and> mset files = {#f1, f2, f3#} \<and>
   file_version f1 = 1 \<and> file_version f2 = 2 \<and> file_version f3 = 3 \<and>
   plain_sql (file_sql f2) \<and> plain_sql (file_sql f3) \<longrightarrow>
   run (migrate_ts reference dir env) s =
     (Inr (),
      \<lparr>store = s\<lparr>connected_to := None, ledger := [1, 2, 3],
                  ran := ran s @ [file_sql f2, file_sql f3]\<rparr>,
       trace =
         [Connect (connection_config env),
          ExistsSync dir,
          ReadMigrations (dir @ ''/*''),
          Query ledger_select_sql,
          Query (file_sql f2),
          Query (ledger_insert_sql 2),
          Query (file_sql f3),
          Query (ledger_insert_sql 3),
          ConsoleLog ''Migration completed!'',
          End]\<rparr>) \<and>
   run (migrate_ts reference dir env)
       (s\<lparr>connected_to := None, ledger := [1, 2, 3],
          ran := ran s @ [file_sql f2, file_sql f3]\<rparr>) =
     (Inr (),
      \<lparr>store = s\<lparr>connected_to := None, ledger := [1, 2, 3],
                  ran := ran s @ [file_sql f2, file_sql f3]\<rparr>,
       trace =
         [Connect (connection_config env),
          ExistsSync dir,
          ReadMigrations (dir @ ''/*''),
          Query ledger_select_sql,
          ConsoleLog ''Migration completed!'',
          End]\<rparr>)"
proof (intro impI conjI)
  assume a: "ledger s = [1] \<and> target_database (connection_config env) \<in> set (databases s) \<and>
   map_of (directories s) dir = Some files \<and> mset files = {#f1, f2, f3#} \<and>
   file_version f1 = 1 \<and> file_version f2 = 2 \<and> file_version f3 = 3 \<and>
   plain_sql (file_sql f2) \<and> plain_sql (file_sql f3)"
  then have m: "mset files = {#f1, f2, f3#}"
    and v: "file_version f1 = 1" "file_version f2 = 2" "file_version f3 = 3"
    and p: "plain_sql (file_sql f2)" "plain_sql (file_sql f3)"
    and l: "ledger s = [1]"
    and t: "target_database (connection_config env) \<in> set (databases s)"
    and d: "map_of (directories s) dir = Some files"
    by simp_all
  note pend = pending_three_files [OF m v]
  have rd: "on_readMigrations reference (dir @ ''/*'') s' = files"
    if "directories s' = directories s" for s'
    using d that reference_files(2) [of dir s'] by simp
  have ex: "on_existsSync reference dir s'" if "directories s' = directories s" for s'
    using d that by simp
  let ?c = "s\<lparr>connected_to := Some (target_database (connection_config env))\<rparr>"
  have 1: "run (migrate_ts reference dir env) s =
     (Inr (),
      \<lparr>store = s\<lparr>connected_to := None, ledger := [1, 2, 3],
                  ran := ran s @ [file_sql f2, file_sql f3]\<rparr>,
       trace =
         [Connect (connection_config env),
          ExistsSync dir,
          ReadMigrations (dir @ ''/*''),
          Query ledger_select_sql,
          Query (file_sql f2),
          Query (ledger_insert_sql 2),
          Query (file_sql f3),
          Query (ledger_insert_sql 3),
          ConsoleLog ''Migration completed!'',
          End]\<rparr>)"
    using l t v rd [of ?c] ex [of ?c]
    by (simp add: migrate_ts_def doMigration_def existsSync_def postgrator_migrate_def
          current_version_def field_def pend server_connect_def server_end_def
          server_query_ledger_select server_query_ledger_insert server_query_plain [OF p(1)]
          server_query_plain [OF p(2)]
          run_def await_then_def try_catch_def try_finally_def emit_def call_def return_def
          connection_connect_def connection_query_def connection_end_def console_log_def
          del: reference_files)
  then show "run (migrate_ts reference dir env) s =
     (Inr (),
      \<lparr>store = s\<lparr>connected_to := None, ledger := [1, 2, 3],
                  ran := ran s @ [file_sql f2, file_sql f3]\<rparr>,
       trace =
         [Connect (connection_config env),
          ExistsSync dir,
          ReadMigrations (dir @ ''/*''),
          Query ledger_select_sql,
          Query (file_sql f2),
          Query (ledger_insert_sql 2),
          Query (file_sql f3),
          Query (ledger_insert_sql 3),
          ConsoleLog ''Migration completed!'',
          End]\<rparr>)" .
  let ?s = "s\<lparr>connected_to := None, ledger := [1, 2, 3],
          ran := ran s @ [file_sql f2, file_sql f3]\<rparr>"
  let ?c' = "?s\<lparr>connected_to := Some (target_database (connection_config env))\<rparr>"
  show "run (migrate_ts reference dir env) ?s =
     (Inr (),
      \<lparr>store = ?s,
       trace =
         [Connect (connection_config env),
          ExistsSync dir,
          ReadMigrations (dir @ ''/*''),
          Query ledger_select_sql,
          ConsoleLog ''Migration completed!'',
          End]\<rparr>)"
    using t rd [of ?c'] ex [of ?c']
    by (simp add: migrate_ts_def doMigration_def existsSync_def postgrator_migrate_def
          current_version_def field_def pend server_connect_def server_end_def
          server_query_ledger_select
          run_def await_then_def try_catch_def try_finally_def emit_def call_def return_def
          connection_connect_def connection_query_def connection_end_def console_log_def
          del: reference_files)
qed

theorem pending_migrations_run_in_order_witness:
  "run (migrate_ts reference ''/app/migrations'' app_env) one_applied =
     (Inr (),
      \<lparr>store = one_applied\<lparr>ledger := [1, 2, 3],
                  ran := [file_sql migration_002, file_sql migration_003]\<rparr>,
       trace =
         [Connect (connection_config app_env),
          ExistsSync ''/app/migrations'',
          ReadMigrations ''/app/migrations/*'',
          Query ledger_select_sql,
          Query (file_sql migration_002),
          Query (ledger_insert_sql 2),
          Query (file_sql migration_003),
          Query (ledger_insert_sql 3),
          ConsoleLog ''Migration completed!'',
          End]\<rparr>) \<and>
   run (migrate_ts reference ''/app/migrations'' app_env)
       (one_applied\<lparr>ledger := [1, 2, 3],
          ran := [file_sql migration_002, file_sql migration_003]\<rparr>) =
     (Inr (),
      \<lparr>store = one_applied\<lparr>ledger := [1, 2, 3],
                  ran := [file_sql migration_002, file_sql migration_003]\<rparr>,
       trace =
         [Connect (connection_config app_env),
          ExistsSync ''/app/migrations'',
          ReadMigrations ''/app/migrations/*'',
          Query ledger_select_sql,
          ConsoleLog ''Migration completed!'',
          End]\<rparr>)"
proof -
  have a: "ledger one_applied = [1]
           \<and> target_database (connection_config app_env) \<in> set (databases one_applied)
           \<and> map_of (directories one_applied) ''/app/migrations''
               = Some [migration_003, migration_001, migration_002]
           \<and> mset [migration_003, migration_001, migration_002]
               = {#migration_001, migration_002, migration_003#}
           \<and> file_version migration_001 = 1 \<and> file_version migration_002 = 2
           \<and> file_version migration_003 = 3
           \<and> plain_sql (file_sql migration_002) \<and> plain_sql (file_sql migration_003)"
    by (simp add: one_applied_def has_app_def empty_server_def migration_bodies_plain
          add_mset_commute)
       (simp add: migration_001_def migration_002_def migration_003_def)
  have r: "ran one_applied = []" "one_applied\<lparr>connected_to := None\<rparr> = one_applied"
    by (simp_all add: one_applied_def has_app_def empty_server_def)
  from pending_migrations_run_in_order
         [of one_applied app_env "''/app/migrations''"
             "[migration_003, migration_001, migration_002]"
             migration_001 migration_002 migration_003] a
  show ?thesis by (simp add: r)
qed

section \<open>Truncation, then inserts\<close>

lemma truncateTables_result:
  "truncateTables c w =
     (case on_query c select_tables_sql (store w) of
        (Inl e, s1) \<Rightarrow> (Inl e, w\<lparr>store := s1, trace := trace w @ [Query select_tables_sql]\<rparr>)
      | (Inr tables, s1) \<Rightarrow>
          if tables = [] then
            (Inr (), w\<lparr>store := s1, trace := trace w @ [Query select_tables_sql]\<rparr>)
          else
            (case on_query c (truncateQueries tables) s1 of
               (Inl e, s2) \<Rightarrow>
                 (Inl e,
                  w\<lparr>store := s2,
                    trace := trace w @ [Query select_tables_sql, Query (truncateQueries tables)]\<rparr>)
             | (Inr _, s2) \<Rightarrow>
                 (Inr (),
                  w\<lparr>store := s2,
                    trace := trace w @
                      [Query select_tables_sql, Query (truncateQueries tables),
                       ConsoleLog ''All tables have been truncated successfully.'']\<rparr>)))"
  by (simp add: truncateTables_def await_then_def connection_query_def call_def emit_def
        console_log_def return_def split: prod.splits sum.splits)

lemma truncateTables_returns:
  assumes "truncateTables c w = (Inr (), w2)"
  shows "\<exists>tables s2.
           on_query c select_tables_sql (store w) = (Inr tables, s2) \<and>
           trace w2 = trace w @ Query select_tables_sql #
             (if tables = [] then []
              else [Query (truncateQueries tables),
                    ConsoleLog ''All tables have been truncated successfully.''])"
proof -
  obtain r s1 where q: "on_query c select_tables_sql (store w) = (r, s1)"
    by (cases "on_query c select_tables_sql (store w)")
  show ?thesis
  proof (cases r)
    case (Inl e)
    with q assms show ?thesis by (simp add: truncateTables_result)
  next
    case (Inr tables)
    show ?thesis
    proof (cases "tables = []")
      case True
      with q Inr assms show ?thesis by (auto simp: truncateTables_result)
    next
      case False
      obtain r2 s2 where q2: "on_query c (truncateQueries tables) s1 = (r2, s2)"
        by (cases "on_query c (truncateQueries tables) s1")
      with q Inr False assms show ?thesis
        by (cases r2) (auto simp: truncateTables_result)
    qed
  qed
qed

lemma executing_simps [simp]:
  "on_connect executing = server_connect"
  "on_query executing = server_query"
  "on_execute executing = Some server_execute"
  "on_end executing = server_end"
  "on_scryptHash executing = server_scryptHash"
  by (simp_all add: executing_def reference_def)

lemma sql_words_select_tables:
  "sql_words select_tables_sql =
     [''SELECT'', ''table_name'', ''FROM'', ''information_schema.tables'',
      ''WHERE'', ''table_schema'', ''='', [CHR 0x27] @ ''public'' @ [CHR 0x27],
      ''AND'', ''table_type'', ''='', [CHR 0x27] @ ''BASE'', ''TABLE'' @ [CHR 0x27]]"
  by (simp add: sql_words_def select_tables_sql_def is_ws_def)

lemma server_query_select_tables:
  "server_query select_tables_sql s = (Inr server_tables, s)"
proof -
  have "quoted_name ''CREATE DATABASE '' select_tables_sql = None"
       "quoted_name ''DROP DATABASE '' select_tables_sql = None"
    by (simp_all add: select_tables_sql_def quoted_name_def strip_prefix_def)
  then show ?thesis
    by (simp add: server_query_def sql_words_select_tables base_tables_words_def)
qed

lemma truncateQueries_rows:
  "truncateQueries [] = []"
  "field r ''table_name'' = Str a \<Longrightarrow>
     truncateQueries [r] = ''TRUNCATE TABLE \"'' @ a @ ''\" RESTART IDENTITY CASCADE''"
  "field r ''table_name'' = Str a \<Longrightarrow> rows \<noteq> [] \<Longrightarrow>
     truncateQueries (r # rows) =
       ''TRUNCATE TABLE \"'' @ a @ ''\" RESTART IDENTITY CASCADE; '' @ truncateQueries rows"
  by (cases rows; simp add: truncateQueries_def to_string_def)+

lemma truncateQueries_server_tables:
  "truncateQueries server_tables =
     ''TRUNCATE TABLE \"users\" RESTART IDENTITY CASCADE; '' @
     ''TRUNCATE TABLE \"roles\" RESTART IDENTITY CASCADE; '' @
     ''TRUNCATE TABLE \"user_roles\" RESTART IDENTITY CASCADE''"
  by (simp add: truncateQueries_def server_tables_def field_def to_string_def)

lemma truncate_batch_server_tables:
  "truncate_batch (truncateQueries server_tables) =
     Some [(''users'', '' RESTART IDENTITY CASCADE''), (''roles'', '' RESTART IDENTITY CASCADE''),
           (''user_roles'', '' RESTART IDENTITY CASCADE'')]"
  by (simp add: truncateQueries_server_tables truncate_batch_def truncate_statement_def
        strip_prefix_def trim_def is_ws_def)

lemma server_query_truncate:
  "server_query (truncateQueries server_tables) s =
     (Inr [], s\<lparr>users_rows := [], roles_rows := [], user_roles_rows := [],
                users_id_seq := 0, roles_id_seq := 0\<rparr>)"
proof -
  have 1: "quoted_name ''CREATE DATABASE '' (truncateQueries server_tables) = None"
    and 2: "quoted_name ''DROP DATABASE '' (truncateQueries server_tables) = None"
    by (simp_all add: quoted_name_def strip_prefix_def truncateQueries_server_tables)
  have 3: "sql_words (truncateQueries server_tables) \<noteq> base_tables_words"
    by (simp add: truncateQueries_server_tables sql_words_def is_ws_def base_tables_words_def)
  show ?thesis
    by (simp add: server_query_def 1 2 3 truncate_batch_server_tables truncate_table_def)
qed

lemma server_tables_not_empty: "server_tables \<noteq> []"
  by (simp add: server_tables_def)

lemma truncateTables_on_server:
  assumes "on_query c = server_query"
  shows "truncateTables c w =
     (Inr (),
      w\<lparr>store := (store w)\<lparr>users_rows := [], roles_rows := [], user_roles_rows := [],
                             users_id_seq := 0, roles_id_seq := 0\<rparr>,
        trace := trace w @
          [Query select_tables_sql, Query (truncateQueries server_tables),
           ConsoleLog ''All tables have been truncated successfully.'']\<rparr>)"
  by (simp add: truncateTables_result assms server_query_select_tables server_query_truncate
        server_tables_not_empty)

lemma seedUsers_without_execute:
  assumes "on_execute c = None" and "on_scryptHash c ''Password123$'' (store w) = (Inr h, s1)"
  shows "seedUsers c w =
     (Inl not_a_function, w\<lparr>store := s1, trace := trace w @ [ScryptHash ''Password123$'']\<rparr>)"
  using assms
  by (simp add: seedUsers_def seedUsers_of_def users_def scryptHash_def
        connection_execute_def await_then_def call_def emit_def throw_def)

lemma sql_words_inserts:
  "sql_words insert_user_sql =
     [''INSERT'', ''INTO'', ''users'', ''(username,'', ''email,'', ''password)'',
      ''VALUES'', ''(?,'', ''?,'', ''?)'']"
  "sql_words insert_role_sql = [''INSERT'', ''INTO'', ''roles'', ''(name)'', ''VALUES'', ''(?)'']"
  "sql_words insert_user_role_sql =
     [''INSERT'', ''INTO'', ''user_roles'', ''(user_id,'', ''role_id)'', ''VALUES'', ''(?,'', ''?)'']"
  by (simp_all add: sql_words_def is_ws_def insert_user_sql_def insert_role_sql_def
        insert_user_role_sql_def)

lemma server_execute_user:
  "server_execute insert_user_sql [Str n, Str e, Str p] s =
     (Inr [[(''id'', Num (users_id_seq s + 1))]],
      s\<lparr>users_rows := users_rows s @ [(users_id_seq s + 1, n, e, p)],
        users_id_seq := users_id_seq s + 1\<rparr>)"
  by (simp add: server_execute_def sql_words_inserts)

lemma server_execute_role:
  "server_execute insert_role_sql [Str n] s =
     (Inr [[(''id'', Num (roles_id_seq s + 1))]],
      s\<lparr>roles_rows := roles_rows s @ [(roles_id_seq s + 1, n)],
        roles_id_seq := roles_id_seq s + 1\<rparr>)"
  by (simp add: server_execute_def sql_words_inserts)

lemma server_execute_user_role:
  "server_execute insert_user_role_sql [Num u, Num r] s =
     (Inr [], s\<lparr>user_roles_rows := user_roles_rows s @ [(u, r)]\<rparr>)"
  by (simp add: server_execute_def sql_words_inserts)

lemmas seed_loop_defs =
  seedUsers_of_def scryptHash_def server_scryptHash_def first_row_id_def field_def
  connection_execute_def server_execute_user server_execute_role server_execute_user_role
  await_then_def call_def emit_def return_def console_log_def

lemma seedUsers_with_execute:
  "seedUsers executing w =
     (Inr (),
      w\<lparr>store :=
         (store w)\<lparr>users_rows := users_rows (store w) @
              [(users_id_seq (store w) + 1, ''basic'', ''basic@example.com'',
                  show_nat (salts (store w)) @ ''.'' @ rev ''Password123$''),
               (users_id_seq (store w) + 2, ''moderator'', ''moderator@example.com'',
                  show_nat (salts (store w)) @ ''.'' @ rev ''Password123$''),
               (users_id_seq (store w) + 3, ''admin'', ''admin@example.com'',
                  show_nat (salts (store w)) @ ''.'' @ rev ''Password123$'')],
           roles_rows := roles_rows (store w) @
              [(roles_id_seq (store w) + 1, ''basic''), (roles_id_seq (store w) + 2, ''moderator''),
               (roles_id_seq (store w) + 3, ''admin'')],
           user_roles_rows := user_roles_rows (store w) @
              [(users_id_seq (store w) + 1, roles_id_seq (store w) + 1),
               (users_id_seq (store w) + 2, roles_id_seq (store w) + 1), (users_id_seq (store w) + 2, roles_id_seq (store w) + 2),
               (users_id_seq (store w) + 3, roles_id_seq (store w) + 1), (users_id_seq (store w) + 3, roles_id_seq (store w) + 2),
               (users_id_seq (store w) + 3, roles_id_seq (store w) + 3)],
           users_id_seq := users_id_seq (store w) + 3,
           roles_id_seq := roles_id_seq (store w) + 3,
           salts := salts (store w) + 1\<rparr>,
       trace := trace w @
         [ScryptHash ''Password123$'',
          Execute insert_user_sql
            [Str ''basic'', Str ''basic@example.com'',
             Str (show_nat (salts (store w)) @ ''.'' @ rev ''Password123$'')],
          Execute insert_role_sql [Str ''basic''],
          Execute insert_user_role_sql [Num (users_id_seq (store w) + 1), Num (roles_id_seq (store w) + 1)],
          Execute insert_user_sql
            [Str ''moderator'', Str ''moderator@example.com'',
             Str (show_nat (salts (store w)) @ ''.'' @ rev ''Password123$'')],
          Execute insert_role_sql [Str ''moderator''],
          Execute insert_user_role_sql [Num (users_id_seq (store w) + 2), Num (roles_id_seq (store w) + 1)],
          Execute insert_user_role_sql [Num (users_id_seq (store w) + 2), Num (roles_id_seq (store w) + 2)],
          Execute insert_user_sql
            [Str ''admin'', Str ''admin@example.com'',
             Str (show_nat (salts (store w)) @ ''.'' @ rev ''Password123$'')],
          Execute insert_role_sql [Str ''admin''],
          Execute insert_user_role_sql [Num (users_id_seq (store w) + 3), Num (roles_id_seq (store w) + 1)],
          Execute insert_user_role_sql [Num (users_id_seq (store w) + 3), Num (roles_id_seq (store w) + 2)],
          Execute insert_user_role_sql [Num (users_id_seq (store w) + 3), Num (roles_id_seq (store w) + 3)],
          ConsoleLog ''Users have been seeded successfully.'']\<rparr>)"
  by (simp add: seedUsers_def users_def seed_loop_defs del: show_nat.simps rev.simps)

text \<open>
  Claim C4. In a run of the seed script that has connected, the trace is: the connection,
  then all that \<^verbatim>\<open>truncateTables\<close> did, then the rest. The part of \<^verbatim>\<open>truncateTables\<close> holds no
  insert. If \<^verbatim>\<open>truncateTables\<close> threw, the rest holds no insert either. If it returned, its
  part is the enumeration of the base tables followed, when there are any, by the one
  batch that truncates each of them; so every insert of the run comes after the
  truncation.

  The enumeration is, word by word, the selection of the names of the base tables of the
  schema \<^verbatim>\<open>public\<close>. The batch holds, for each enumerated table in turn, the statement
  \<^verbatim>\<open>TRUNCATE TABLE "name" RESTART IDENTITY CASCADE\<close>, the statements separated by a semicolon
  and a space. On a client whose queries the reference server answers, \<^verbatim>\<open>truncateTables\<close>
  returns, leaves the three tables empty and their sequences restarted, and has sent
  exactly the enumeration and the batch for the three tables. For a client that has
  \<^verbatim>\<open>execute\<close>, the seed script run from any state of the server, whatever rows the tables
  held, ends with the rows of this run only, numbered from 1.
\<close>

theorem truncation_precedes_inserts:
  "(strict_eq_1 (Number_js (env ''CAN_SEED_DATABASE''))
     \<and> on_connect c (connection_config env) (store w) = (Inr (), s1) \<longrightarrow>
   (\<exists>pre post.
      trace (snd (seed_ts c env w)) = trace w @ Connect (connection_config env) # pre @ post
      \<and> trace (snd (truncateTables c ((emit (Connect (connection_config env)) w)\<lparr>store := s1\<rparr>)))
           = trace w @ Connect (connection_config env) # pre
      \<and> list_all (\<lambda>ev. \<not> is_insert ev) pre
      \<and> (\<forall>e. fst (truncateTables c ((emit (Connect (connection_config env)) w)\<lparr>store := s1\<rparr>)) = Inl e
             \<longrightarrow> list_all (\<lambda>ev. \<not> is_insert ev) post)
      \<and> (fst (truncateTables c ((emit (Connect (connection_config env)) w)\<lparr>store := s1\<rparr>)) = Inr ()
             \<longrightarrow> (\<exists>tables s2.
                    on_query c select_tables_sql s1 = (Inr tables, s2) \<and>
                    pre = Query select_tables_sql #
                      (if tables = [] then []
                       else [Query (truncateQueries tables),
                             ConsoleLog ''All tables have been truncated successfully.'']))))) \<and>
   sql_words select_tables_sql =
     [''SELECT'', ''table_name'', ''FROM'', ''information_schema.tables'',
      ''WHERE'', ''table_schema'', ''='', [CHR 0x27] @ ''public'' @ [CHR 0x27],
      ''AND'', ''table_type'', ''='', [CHR 0x27] @ ''BASE'', ''TABLE'' @ [CHR 0x27]] \<and>
   (field r ''table_name'' = Str a \<longrightarrow>
      truncateQueries [r] = ''TRUNCATE TABLE \"'' @ a @ ''\" RESTART IDENTITY CASCADE'') \<and>
   (field r ''table_name'' = Str a \<and> rows \<noteq> [] \<longrightarrow>
      truncateQueries (r # rows) =
        ''TRUNCATE TABLE \"'' @ a @ ''\" RESTART IDENTITY CASCADE; '' @ truncateQueries rows) \<and>
   (on_query c = server_query \<longrightarrow>
      truncateTables c w =
        (Inr (),
         w\<lparr>store := (store w)\<lparr>users_rows := [], roles_rows := [], user_roles_rows := [],
                                users_id_seq := 0, roles_id_seq := 0\<rparr>,
           trace := trace w @
             [Query select_tables_sql,
              Query (''TRUNCATE TABLE \"users\" RESTART IDENTITY CASCADE; '' @
                     ''TRUNCATE TABLE \"roles\" RESTART IDENTITY CASCADE; '' @
                     ''TRUNCATE TABLE \"user_roles\" RESTART IDENTITY CASCADE''),
              ConsoleLog ''All tables have been truncated successfully.'']\<rparr>)) \<and>
   (strict_eq_1 (Number_js (env ''CAN_SEED_DATABASE''))
      \<and> target_database (connection_config env) \<in> set (databases s) \<longrightarrow>
      store (snd (run (seed_ts executing env) s)) =
        s\<lparr>connected_to := None,
          users_rows :=
            [(1, ''basic'', ''basic@example.com'', show_nat (salts s) @ ''.'' @ rev ''Password123$''),
             (2, ''moderator'', ''moderator@example.com'',
                show_nat (salts s) @ ''.'' @ rev ''Password123$''),
             (3, ''admin'', ''admin@example.com'', show_nat (salts s) @ ''.'' @ rev ''Password123$'')],
          roles_rows := [(1, ''basic''), (2, ''moderator''), (3, ''admin'')],
          user_roles_rows := [(1, 1), (2, 1), (2, 2), (3, 1), (3, 2), (3, 3)],
          users_id_seq := 3, roles_id_seq := 3, salts := salts s + 1\<rparr>)"
  (is "(?A \<longrightarrow> ?C) \<and> ?W \<and> ?Q1 \<and> ?Q2 \<and> ?T \<and> ?S")
proof -
  have A: "?A \<longrightarrow> ?C"
  proof (intro impI)
    assume a: ?A
    let ?cfg = "connection_config env"
    let ?w1 = "(emit (Connect ?cfg) w)\<lparr>store := s1\<rparr>"
    have w1: "trace ?w1 = trace w @ [Connect ?cfg]" "store ?w1 = s1"
      by (simp_all add: emit_def)
    obtain r w2 where T: "truncateTables c ?w1 = (r, w2)" by (cases "truncateTables c ?w1")
    from appendsD [OF appends_truncateTables, of c ?w1] T obtain pre
      where pre: "trace w2 = trace ?w1 @ pre" "list_all (\<lambda>ev. body_event ev \<and> \<not> is_insert ev) pre"
      by auto
    from pre(2) have pre2: "list_all (\<lambda>ev. \<not> is_insert ev) pre"
      by (simp add: list_all_iff)
    have "\<exists>post. trace (snd (seed_ts c env w)) = trace w2 @ post
            \<and> (\<forall>e. r = Inl e \<longrightarrow> list_all (\<lambda>ev. \<not> is_insert ev) post)"
    proof (cases r)
      case (Inl e)
      obtain r3 s3 where e3: "on_end c (store w2) = (r3, s3)" by (cases "on_end c (store w2)")
      have "trace (snd (seed_ts c env w))
              = trace w2 @ [ConsoleError [Text ''Error seeding database:'', Err e], End]"
        using a T Inl e3
        by (cases r3)
           (simp_all add: seed_ts_def seed_def await_then_def try_catch_def try_finally_def
              connection_connect_def connection_end_def console_error_def call_def emit_def)
      then show ?thesis by (simp add: is_insert_def)
    next
      case (Inr u)
      obtain r' w3 where S: "seedUsers c w2 = (r', w3)" by (cases "seedUsers c w2")
      from appendsD [OF appends_seedUsers, of c w2] S obtain t
        where t: "trace w3 = trace w2 @ t" by auto
      obtain w4 where w4: "w4 = (case r' of Inl e \<Rightarrow>
                              emit (ConsoleError [Text ''Error seeding database:'', Err e]) w3
                            | Inr _ \<Rightarrow> w3)"
        by simp
      have t4: "\<exists>t'. trace w4 = trace w2 @ t'"
        using t w4 by (cases r') (simp_all add: emit_def)
      then obtain t' where t': "trace w4 = trace w2 @ t'" by blast
      obtain r3 s3 where e3: "on_end c (store w4) = (r3, s3)" by (cases "on_end c (store w4)")
      have "trace (snd (seed_ts c env w)) = trace w4 @ [End]"
        using a T Inr S w4 e3
        by (cases r'; cases r3)
           (simp_all add: seed_ts_def seed_def await_then_def try_catch_def try_finally_def
              connection_connect_def connection_end_def console_error_def call_def emit_def)
      with t' Inr show ?thesis by simp
    qed
    then obtain post where post: "trace (snd (seed_ts c env w)) = trace w2 @ post"
        "\<forall>e. r = Inl e \<longrightarrow> list_all (\<lambda>ev. \<not> is_insert ev) post"
      by blast
    have c1: "trace (snd (seed_ts c env w)) = trace w @ Connect ?cfg # pre @ post"
      using post(1) pre(1) w1(1) by simp
    have c2: "trace (snd (truncateTables c ?w1)) = trace w @ Connect ?cfg # pre"
      using T pre(1) w1(1) by simp
    have c4: "\<forall>e. fst (truncateTables c ?w1) = Inl e \<longrightarrow> list_all (\<lambda>ev. \<not> is_insert ev) post"
      using T post(2) by simp
    have c5: "fst (truncateTables c ?w1) = Inr ()
               \<longrightarrow> (\<exists>tables s2.
                      on_query c select_tables_sql s1 = (Inr tables, s2) \<and>
                      pre = Query select_tables_sql #
                        (if tables = [] then []
                         else [Query (truncateQueries tables),
                               ConsoleLog ''All tables have been truncated successfully.'']))"
    proof
      assume "fst (truncateTables c ?w1) = Inr ()"
      with T have "truncateTables c ?w1 = (Inr (), w2)" by simp
      from truncateTables_returns [OF this] obtain tables s2
        where "on_query c select_tables_sql (store ?w1) = (Inr tables, s2)"
          and "trace w2 = trace ?w1 @ Query select_tables_sql #
               (if tables = [] then []
                else [Query (truncateQueries tables),
                      ConsoleLog ''All tables have been truncated successfully.''])"
        by blast
      with pre(1) w1 show "\<exists>tables s2.
                      on_query c select_tables_sql s1 = (Inr tables, s2) \<and>
                      pre = Query select_tables_sql #
                        (if tables = [] then []
                         else [Query (truncateQueries tables),
                               ConsoleLog ''All tables have been truncated successfully.''])"
        by auto
    qed
    from c1 c2 pre2 c4 c5 show ?C by blast
  qed
  have W: ?W by (rule sql_words_select_tables)
  have Q1: ?Q1 by (simp add: truncateQueries_rows(2))
  have Q2: ?Q2 by (simp add: truncateQueries_rows(3))
  have T: ?T
    using truncateTables_on_server [of c w] by (simp add: truncateQueries_server_tables)
  have S: ?S
  proof
    assume s: "strict_eq_1 (Number_js (env ''CAN_SEED_DATABASE''))
      \<and> target_database (connection_config env) \<in> set (databases s)"
    have q: "on_query executing = server_query" by simp
    show "store (snd (run (seed_ts executing env) s)) =
        s\<lparr>connected_to := None,
          users_rows :=
            [(1, ''basic'', ''basic@example.com'', show_nat (salts s) @ ''.'' @ rev ''Password123$''),
             (2, ''moderator'', ''moderator@example.com'',
                show_nat (salts s) @ ''.'' @ rev ''Password123$''),
             (3, ''admin'', ''admin@example.com'', show_nat (salts s) @ ''.'' @ rev ''Password123$'')],
          roles_rows := [(1, ''basic''), (2, ''moderator''), (3, ''admin'')],
          user_roles_rows := [(1, 1), (2, 1), (2, 2), (3, 1), (3, 2), (3, 3)],
          users_id_seq := 3, roles_id_seq := 3, salts := salts s + 1\<rparr>"
      using s
      by (simp add: seed_ts_def seed_def truncateTables_on_server [OF q] seedUsers_with_execute
            server_connect_def server_end_def
            run_def await_then_def try_catch_def try_finally_def emit_def call_def
            connection_connect_def connection_end_def console_error_def
            del: show_nat.simps rev.simps)
  qed
  show ?thesis
    apply (intro conjI)
         apply (rule A)
        apply (rule W)
       apply (rule Q1)
      apply (rule Q2)
     apply (rule T)
    apply (rule S)
    done
qed

theorem truncation_precedes_inserts_witness:
  "(\<exists>pre post.
      trace (snd (seed_ts executing app_env \<lparr>store = has_app, trace = []\<rparr>))
        = [] @ Connect (connection_config app_env) # pre @ post
      \<and> trace (snd (truncateTables executing
                       ((emit (Connect (connection_config app_env)) \<lparr>store = has_app, trace = []\<rparr>)
                          \<lparr>store := has_app\<lparr>connected_to := Some ''app''\<rparr>\<rparr>)))
           = [] @ Connect (connection_config app_env) # pre
      \<and> list_all (\<lambda>ev. \<not> is_insert ev) pre
      \<and> (\<forall>e. fst (truncateTables executing
                       ((emit (Connect (connection_config app_env)) \<lparr>store = has_app, trace = []\<rparr>)
                          \<lparr>store := has_app\<lparr>connected_to := Some ''app''\<rparr>\<rparr>)) = Inl e
             \<longrightarrow> list_all (\<lambda>ev. \<not> is_insert ev) post)
      \<and> (fst (truncateTables executing
                       ((emit (Connect (connection_config app_env)) \<lparr>store = has_app, trace = []\<rparr>)
                          \<lparr>store := has_app\<lparr>connected_to := Some ''app''\<rparr>\<rparr>)) = Inr ()
             \<longrightarrow> (\<exists>tables s2.
                    on_query executing select_tables_sql (has_app\<lparr>connected_to := Some ''app''\<rparr>)
                      = (Inr tables, s2) \<and>
                    pre = Query select_tables_sql #
                      (if tables = [] then []
                       else [Query (truncateQueries tables),
                             ConsoleLog ''All tables have been truncated successfully.'']))))
   \<and> truncateQueries [[(''table_name'', Str ''users'')]] =
         ''TRUNCATE TABLE \"users\" RESTART IDENTITY CASCADE''
   \<and> truncateQueries [[(''table_name'', Str ''users'')], [(''table_name'', Str ''roles'')]] =
         ''TRUNCATE TABLE \"users\" RESTART IDENTITY CASCADE; '' @
         truncateQueries [[(''table_name'', Str ''roles'')]]
   \<and> truncateTables executing \<lparr>store = stale_rows, trace = []\<rparr> =
        (Inr (),
         \<lparr>store = has_app,
          trace =
             [Query select_tables_sql,
              Query (''TRUNCATE TABLE \"users\" RESTART IDENTITY CASCADE; '' @
                     ''TRUNCATE TABLE \"roles\" RESTART IDENTITY CASCADE; '' @
                     ''TRUNCATE TABLE \"user_roles\" RESTART IDENTITY CASCADE''),
              ConsoleLog ''All tables have been truncated successfully.'']\<rparr>)
   \<and> store (snd (run (seed_ts executing app_env) stale_rows)) =
        has_app\<lparr>users_rows :=
            [(1, ''basic'', ''basic@example.com'', ''0.$321drowssaP''),
             (2, ''moderator'', ''moderator@example.com'', ''0.$321drowssaP''),
             (3, ''admin'', ''admin@example.com'', ''0.$321drowssaP'')],
          roles_rows := [(1, ''basic''), (2, ''moderator''), (3, ''admin'')],
          user_roles_rows := [(1, 1), (2, 1), (2, 2), (3, 1), (3, 2), (3, 3)],
          users_id_seq := 3, roles_id_seq := 3, salts := 1\<rparr>"
proof -
  let ?w = "\<lparr>store = has_app, trace = []\<rparr> :: server world"
  let ?v = "\<lparr>store = stale_rows, trace = []\<rparr> :: server world"
  let ?users = "[(''table_name'', Str ''users'')] :: row"
  let ?roles = "[(''table_name'', Str ''roles'')] :: row"
  have a: "strict_eq_1 (Number_js (app_env ''CAN_SEED_DATABASE''))
     \<and> on_connect executing (connection_config app_env) (store ?w)
           = (Inr (), has_app\<lparr>connected_to := Some ''app''\<rparr>)"
    by (simp add: one_1 server_connect_def)
  have f: "field ?users ''table_name'' = Str ''users''" "[?roles] \<noteq> []"
    by (simp_all add: field_def)
  have q: "on_query executing = server_query" by simp
  have d: "target_database (connection_config app_env) \<in> set (databases stale_rows)"
    by (simp add: stale_rows_def)
  have v: "stale_rows\<lparr>users_rows := [], roles_rows := [], user_roles_rows := [],
                                users_id_seq := 0, roles_id_seq := 0\<rparr> = has_app"
    by (simp add: stale_rows_def has_app_def empty_server_def)
  have h: "show_nat (salts stale_rows) @ ''.'' @ rev ''Password123$'' = ''0.$321drowssaP''"
          "salts stale_rows + 1 = 1"
    by (simp_all add: stale_rows_def has_app_def empty_server_def char_of_def bit_0)
  have e: "stale_rows\<lparr>connected_to := None,
          users_rows :=
            [(1, ''basic'', ''basic@example.com'', ''0.$321drowssaP''),
             (2, ''moderator'', ''moderator@example.com'', ''0.$321drowssaP''),
             (3, ''admin'', ''admin@example.com'', ''0.$321drowssaP'')],
          roles_rows := [(1, ''basic''), (2, ''moderator''), (3, ''admin'')],
          user_roles_rows := [(1, 1), (2, 1), (2, 2), (3, 1), (3, 2), (3, 3)],
          users_id_seq := 3, roles_id_seq := 3, salts := 1\<rparr> =
        has_app\<lparr>users_rows :=
            [(1, ''basic'', ''basic@example.com'', ''0.$321drowssaP''),
             (2, ''moderator'', ''moderator@example.com'', ''0.$321drowssaP''),
             (3, ''admin'', ''admin@example.com'', ''0.$321drowssaP'')],
          roles_rows := [(1, ''basic''), (2, ''moderator''), (3, ''admin'')],
          user_roles_rows := [(1, 1), (2, 1), (2, 2), (3, 1), (3, 2), (3, 3)],
          users_id_seq := 3, roles_id_seq := 3, salts := 1\<rparr>"
    by (simp add: stale_rows_def has_app_def empty_server_def)
  note T1 = truncation_precedes_inserts
         [where env = app_env and c = executing and w = ?w
            and ?s1.0 = "has_app\<lparr>connected_to := Some ''app''\<rparr>"
            and r = ?users and a = "''users''" and rows = "[?roles]" and s = stale_rows]
  note T2 = truncation_precedes_inserts
         [where env = app_env and c = executing and w = ?v
            and r = ?users and a = "''users''" and rows = "[?roles]" and s = stale_rows]
  from T1 a have 1: "\<exists>pre post.
      trace (snd (seed_ts executing app_env ?w))
        = [] @ Connect (connection_config app_env) # pre @ post
      \<and> trace (snd (truncateTables executing
                       ((emit (Connect (connection_config app_env)) ?w)
                          \<lparr>store := has_app\<lparr>connected_to := Some ''app''\<rparr>\<rparr>)))
           = [] @ Connect (connection_config app_env) # pre
      \<and> list_all (\<lambda>ev. \<not> is_insert ev) pre
      \<and> (\<forall>e. fst (truncateTables executing
                       ((emit (Connect (connection_config app_env)) ?w)
                          \<lparr>store := has_app\<lparr>connected_to := Some ''app''\<rparr>\<rparr>)) = Inl e
             \<longrightarrow> list_all (\<lambda>ev. \<not> is_insert ev) post)
      \<and> (fst (truncateTables executing
                       ((emit (Connect (connection_config app_env)) ?w)
                          \<lparr>store := has_app\<lparr>connected_to := Some ''app''\<rparr>\<rparr>)) = Inr ()
             \<longrightarrow> (\<exists>tables s2.
                    on_query executing select_tables_sql (has_app\<lparr>connected_to := Some ''app''\<rparr>)
                      = (Inr tables, s2) \<and>
                    pre = Query select_tables_sql #
                      (if tables = [] then []
                       else [Query (truncateQueries tables),
                             ConsoleLog ''All tables have been truncated successfully.''])))"
    by simp
  from T1 f have 2: "truncateQueries [?users] = ''TRUNCATE TABLE \"users\" RESTART IDENTITY CASCADE''"
    by simp
  from T1 f have 3: "truncateQueries [?users, ?roles] =
         ''TRUNCATE TABLE \"users\" RESTART IDENTITY CASCADE; '' @ truncateQueries [?roles]"
    by simp
  from T2 q have "truncateTables executing ?v =
        (Inr (),
         ?v\<lparr>store := (store ?v)\<lparr>users_rows := [], roles_rows := [], user_roles_rows := [],
                                users_id_seq := 0, roles_id_seq := 0\<rparr>,
           trace := trace ?v @
             [Query select_tables_sql,
              Query (''TRUNCATE TABLE \"users\" RESTART IDENTITY CASCADE; '' @
                     ''TRUNCATE TABLE \"roles\" RESTART IDENTITY CASCADE; '' @
                     ''TRUNCATE TABLE \"user_roles\" RESTART IDENTITY CASCADE''),
              ConsoleLog ''All tables have been truncated successfully.'']\<rparr>)"
    by blast
  then have 4: "truncateTables executing ?v =
        (Inr (),
         \<lparr>store = has_app,
          trace =
             [Query select_tables_sql,
              Query (''TRUNCATE TABLE \"users\" RESTART IDENTITY CASCADE; '' @
                     ''TRUNCATE TABLE \"roles\" RESTART IDENTITY CASCADE; '' @
                     ''TRUNCATE TABLE \"user_roles\" RESTART IDENTITY CASCADE''),
              ConsoleLog ''All tables have been truncated successfully.'']\<rparr>)"
    by (simp add: v)
  from T1 a d have "store (snd (run (seed_ts executing app_env) stale_rows)) =
        stale_rows\<lparr>connected_to := None,
          users_rows :=
            [(1, ''basic'', ''basic@example.com'',
                show_nat (salts stale_rows) @ ''.'' @ rev ''Password123$''),
             (2, ''moderator'', ''moderator@example.com'',
                show_nat (salts stale_rows) @ ''.'' @ rev ''Password123$''),
             (3, ''admin'', ''admin@example.com'',
                show_nat (salts stale_rows) @ ''.'' @ rev ''Password123$'')],
          roles_rows := [(1, ''basic''), (2, ''moderator''), (3, ''admin'')],
          user_roles_rows := [(1, 1), (2, 1), (2, 2), (3, 1), (3, 2), (3, 3)],
          users_id_seq := 3, roles_id_seq := 3, salts := salts stale_rows + 1\<rparr>"
    by blast
  then have 5: "store (snd (run (seed_ts executing app_env) stale_rows)) =
        has_app\<lparr>users_rows :=
            [(1, ''basic'', ''basic@example.com'', ''0.$321drowssaP''),
             (2, ''moderator'', ''moderator@example.com'', ''0.$321drowssaP''),
             (3, ''admin'', ''admin@example.com'', ''0.$321drowssaP'')],
          roles_rows := [(1, ''basic''), (2, ''moderator''), (3, ''admin'')],
          user_roles_rows := [(1, 1), (2, 1), (2, 2), (3, 1), (3, 2), (3, 3)],
          users_id_seq := 3, roles_id_seq := 3, salts := 1\<rparr>"
    unfolding h e .
  from 1 2 3 4 5 show ?thesis by (intro conjI)
qed

section \<open>The inserts of the seed script\<close>

text \<open>
  Claim C10 describes what \<^verbatim>\<open>seedUsers\<close> sets out to do, and the code does not get there. The
  hash of \<^verbatim>\<open>Password123$\<close> is computed, once; then the first insert is a call of
  \<^verbatim>\<open>connection.execute\<close>, a method the client does not have, and \<^verbatim>\<open>seedUsers\<close> throws: no
  statement is sent, and no user row, hence no password, is stored.
\<close>

theorem hash_is_never_stored:
  "seedUsers reference w =
     (Inl not_a_function,
      w\<lparr>store := (store w)\<lparr>salts := salts (store w) + 1\<rparr>,
        trace := trace w @ [ScryptHash ''Password123$'']\<rparr>)"
  by (simp add: seedUsers_without_execute server_scryptHash_def)

text \<open>
  Claim C3 describes the role hierarchy that the loop of \<^verbatim>\<open>seedUsers\<close> is written to build,
  and the code does not build it. Against the reference server, from any state in which
  the database \<^verbatim>\<open>app\<close> exists, the seed
  script truncates the tables, computes the hash, and then fails at the first insert,
  since the client has no method \<^verbatim>\<open>execute\<close>; the error is logged and the script ends
  normally with the three tables empty: no role is created and no user holds any.
\<close>

theorem seed_inserts_nothing:
  "run (seed_ts reference app_env) (s\<lparr>databases := ''app'' # databases s\<rparr>) =
     (Inr (),
      \<lparr>store = s\<lparr>databases := ''app'' # databases s, connected_to := None,
                  users_rows := [], roles_rows := [], user_roles_rows := [],
                  users_id_seq := 0, roles_id_seq := 0, salts := salts s + 1\<rparr>,
       trace =
         [Connect (connection_config app_env),
          Query select_tables_sql,
          Query (truncateQueries server_tables),
          ConsoleLog ''All tables have been truncated successfully.'',
          ScryptHash ''Password123$'',
          ConsoleError [Text ''Error seeding database:'', Err not_a_function],
          End]\<rparr>)"
proof -
  have q: "on_query reference = server_query" by simp
  show ?thesis
    by (simp add: seed_ts_def seed_def one_1 truncateTables_on_server [OF q] seedUsers_without_execute
          server_scryptHash_def server_connect_def server_end_def
          run_def await_then_def try_catch_def try_finally_def emit_def call_def
          connection_connect_def connection_end_def console_error_def)
qed

subsection \<open>What the loop does for a client that has \<^verbatim>\<open>execute\<close>\<close>

lemma reordered_roster_with_execute:
  "user_roles_rows (store (snd (seedUsers_of (rev users) executing \<lparr>store = empty_server, trace = []\<rparr>)))
     = [(1, 1), (2, 1), (2, 2), (3, 1), (3, 2), (3, 3)]"
  "map (\<lambda>(i, n, e, p). (i, n))
     (users_rows (store (snd (seedUsers_of (rev users) executing \<lparr>store = empty_server, trace = []\<rparr>))))
     = [(1, ''admin''), (2, ''moderator''), (3, ''basic'')]"
  by (simp_all add: users_def seed_loop_defs empty_server_def del: show_nat.simps)

end
